theory Spec2Isabelle
  imports Main
begin

section \<open>The MTP wrapper class of src/lib/index.js\<close>

text \<open>
  The file src/lib/index.js holds two variants of the class \<open>MTP\<close>. Of the later variant
  (the one with \<open>resolvePath\<close> and \<open>__listMtpFileTree\<close>) the methods on the device tree
  are modelled: \<open>getFileInfo\<close>, \<open>resolvePath\<close>, \<open>fileExists\<close>, \<open>deleteFile\<close>,
  \<open>renameFile\<close>, \<open>createFolder\<close>, \<open>listMtpFileTree\<close>, \<open>__listMtpFileTree\<close>,
  \<open>downloadFile\<close>, \<open>downloadFileTree\<close>, \<open>uploadFile\<close>, \<open>uploadFileTree\<close> and
  \<open>releaseDevice\<close>. Of the earlier variant \<open>releaseDevice\<close> and \<open>deleteFile\<close> are modelled,
  with the suffix \<open>_v1\<close>. Detection, the choice of a storage and the enumeration of a
  local directory are left out, as is the progress callback, which only forwards to the
  caller's function.

  Every method returns a promise of \<open>{data, error}\<close>; it is modelled as a value of
  \<open>err + data\<close> paired with the sequence of native and filesystem calls made so far. The
  native module (\<open>mtp-helper\<close>), \<open>mkdirp\<close>, the flag constants of \<open>mtp-device-flags\<close>, the
  working directory and the date formatter are not part of the sources: they are the
  fields of the record \<open>env\<close>, and each native primitive may answer depending on all the
  calls made before it.
\<close>

subsection \<open>Helpers\<close>

text \<open>\<open>undefinedOrNull\<close>: \<open>None\<close> stands for JavaScript's \<open>null\<close> and \<open>undefined\<close>.\<close>

definition undefinedOrNull :: "'a option \<Rightarrow> bool" where
  "undefinedOrNull v = (v = None)"

text \<open>\<open>String.prototype.split('/')\<close> and \<open>Array.prototype.join('/')\<close>.\<close>

fun split_slash :: "string \<Rightarrow> string list" where
  "split_slash [] = [] # []"
| "split_slash (c # cs) =
     (if c = CHR ''/'' then [] # split_slash cs
      else (case split_slash cs of
              [] \<Rightarrow> [c] # []
            | s # ss \<Rightarrow> (c # s) # ss))"

fun join_slash :: "string list \<Rightarrow> string" where
  "join_slash [] = []"
| "join_slash [s] = s"
| "join_slash (s # ss) = s @ ''/'' @ join_slash ss"

subsection \<open>Node's POSIX path module\<close>

text \<open>
  The functions of this subsection belong to the platform, not to the repository; they
  are written out after Node's implementation for POSIX paths, so that the paths of the
  examples can be computed.

  \<open>normalizeString\<close> of Node's \<open>path\<close> module, by segments: empty segments and \<open>.\<close> are
  dropped, \<open>..\<close> removes the segment before it, and is kept only above the root of a
  relative path. The accumulator holds the segments kept so far, last one first.
\<close>

fun normalize_step :: "bool \<Rightarrow> string list \<Rightarrow> string \<Rightarrow> string list" where
  "normalize_step allowAboveRoot acc seg =
     (if seg = [] \<or> seg = ''.'' then acc
      else if seg = ''..'' then
        (case acc of
           [] \<Rightarrow> (if allowAboveRoot then [''..''] else [])
         | s # r \<Rightarrow> (if s = ''..'' then (if allowAboveRoot then ''..'' # acc else acc) else r))
      else seg # acc)"

definition normalizeString :: "string \<Rightarrow> bool \<Rightarrow> string" where
  "normalizeString p allowAboveRoot =
     join_slash (rev (foldl (normalize_step allowAboveRoot) [] (split_slash p)))"

definition isAbsolute :: "string \<Rightarrow> bool" where
  "isAbsolute p = (case p of [] \<Rightarrow> False | c # _ \<Rightarrow> c = CHR ''/'')"

definition path_normalize :: "string \<Rightarrow> string" where
  "path_normalize p =
     (if p = [] then ''.''
      else
        let trailingSeparator = (last p = CHR ''/'');
            n = normalizeString p (\<not> isAbsolute p)
        in if n = [] then
             (if isAbsolute p then ''/'' else if trailingSeparator then ''./'' else ''.'')
           else
             (let n' = (if trailingSeparator then n @ ''/'' else n)
              in if isAbsolute p then ''/'' @ n' else n'))"

text \<open>\<open>path.join(a, b)\<close>: the non-empty arguments joined by a slash, then normalized.\<close>

definition path_join :: "string \<Rightarrow> string \<Rightarrow> string" where
  "path_join a b =
     (if a = [] \<and> b = [] then ''.''
      else if a = [] then path_normalize b
      else if b = [] then path_normalize a
      else path_normalize (a @ ''/'' @ b))"

text \<open>
  \<open>path.resolve(p)\<close> with one argument: a relative (or empty) \<open>p\<close> is resolved against the
  working directory \<open>cwd\<close>; the result has no trailing slash.
\<close>

definition path_resolve :: "string \<Rightarrow> string \<Rightarrow> string" where
  "path_resolve cwd p =
     (let r1 = (if p = [] then [] else p @ ''/'');
          a1 = (p \<noteq> [] \<and> isAbsolute p);
          r2 = (if a1 \<or> cwd = [] then r1 else cwd @ ''/'' @ r1);
          a2 = (if a1 \<or> cwd = [] then a1 else isAbsolute cwd);
          n = normalizeString r2 (\<not> a2)
      in if a2 then ''/'' @ n else if n \<noteq> [] then n else ''.'')"

text \<open>\<open>path.basename(p)\<close>: trailing slashes are ignored, then the part after the last slash.\<close>

definition path_basename :: "string \<Rightarrow> string" where
  "path_basename p =
     rev (takeWhile (\<lambda>c. c \<noteq> CHR ''/'') (dropWhile (\<lambda>c. c = CHR ''/'') (rev p)))"

text \<open>
  \<open>path.dirname(p)\<close>: scanning from the end down to index 1, the trailing slashes and the
  last segment are skipped; \<open>end\<close> is the index of the slash before that segment.
\<close>

definition path_dirname :: "string \<Rightarrow> string" where
  "path_dirname p =
     (if p = [] then ''.''
      else
        let hasRoot = (hd p = CHR ''/'');
            r = dropWhile (\<lambda>c. c \<noteq> CHR ''/'') (dropWhile (\<lambda>c. c = CHR ''/'') (rev (tl p)));
            end = length r
        in if r = [] then (if hasRoot then ''/'' else ''.'')
           else if hasRoot \<and> end = 1 then ''//''
           else take end p)"

subsection \<open>The hidden-file pattern\<close>

text \<open>
  The regular expression \<open>/(^|\/)\.[^\/\.]/\<close> tested on a name: at the start of the name
  or right after a slash there is a dot followed by a character that is neither a slash
  nor a dot.
\<close>

fun dot_then_other :: "string \<Rightarrow> bool" where
  "dot_then_other (a # b # _) = (a = CHR ''.'' \<and> b \<noteq> CHR ''/'' \<and> b \<noteq> CHR ''.'')"
| "dot_then_other _ = False"

fun after_slash :: "string \<Rightarrow> bool" where
  "after_slash [] = False"
| "after_slash (c # cs) = ((c = CHR ''/'' \<and> dot_then_other cs) \<or> after_slash cs)"

definition hiddenPattern_test :: "string \<Rightarrow> bool" where
  "hiddenPattern_test nm = (dot_then_other nm \<or> after_slash nm)"

subsection \<open>Data model\<close>

datatype dev = Dev nat

datatype exn = TypeError | NativeError nat

text \<open>The messages of \<open>this.ERR\<close>, and \<open>Thrown e\<close> for a caught exception passed on as the error.\<close>

datatype err =
    NO_MTP | NO_STORAGE | LOCAL_FOLDER_NOT_FOUND | ILLEGAL_FILE_NAME | RENAME_FAILED
  | FILE_INFO_FAILED | DOWNLOAD_FILE_FAILED | UPLOAD_FILE_FAILED | NO_FILES_COPIED
  | CREATE_FOLDER_FAILED | CREATE_FOLDER_FILE_FAILED | INVALID_PATH_RESOLVE
  | INVALID_NOT_FOUND | Thrown exn

text \<open>A file object of the native module (\<open>file.id\<close>, \<open>file.name\<close>, ...).\<close>

record file_t =
  file_id :: nat
  file_name :: "string option"
  file_size :: nat
  file_type :: nat
  file_parentId :: nat
  file_storageId :: nat
  file_modificationDate :: nat

text \<open>The object \<open>fileInfo\<close> built by the enumerator, and the tree node it heads.\<close>

record fileInfo =
  id' :: nat
  name :: string
  size' :: nat
  isFolder :: bool
  parentId :: nat
  type' :: nat
  storageId' :: nat
  path :: string
  extension :: "string option"
  dateAdded :: string

datatype node = Node (info: fileInfo) (children: "node list")

text \<open>The calls that leave the class: the native primitives and \<open>mkdirp\<close>.\<close>

datatype call =
    Release_Device_call dev
  | Get_Filemetadata_call dev "nat option"
  | Get_Files_And_Folders_call dev "nat option" "nat option"
  | Destroy_file_call dev "nat option"
  | Set_File_Name_call dev "nat option" "nat option" string
  | Create_Folder_call dev "string option" "nat option" "nat option"
  | Get_File_To_File_call dev nat string
  | Send_File_From_File_call dev string nat string nat "nat option" "nat option"
  | mkdirp_call string

type_synonym trace = "call list"

text \<open>
  What the sources take from outside. A native primitive is given the calls made before
  it; it returns a value (\<open>Inr\<close>) or throws (\<open>Inl\<close>). \<open>mkdirp\<close> hands an error or nothing to
  its callback.
\<close>

record env =
  cwd :: string
  FILES_AND_FOLDERS_ROOT :: nat
  FILETYPE_FOLDER :: nat
  FILETYPE_UNKNOWN :: nat
  path_ext :: "string \<Rightarrow> string"
  formatDate :: "nat \<Rightarrow> string"
  Release_Device :: "trace \<Rightarrow> dev \<Rightarrow> exn + unit"
  Get_Filemetadata :: "trace \<Rightarrow> dev \<Rightarrow> nat option \<Rightarrow> exn + file_t option"
  Get_Files_And_Folders :: "trace \<Rightarrow> dev \<Rightarrow> nat option \<Rightarrow> nat option \<Rightarrow> exn + file_t list"
  Destroy_file :: "trace \<Rightarrow> dev \<Rightarrow> nat option \<Rightarrow> exn + int"
  Set_File_Name :: "trace \<Rightarrow> dev \<Rightarrow> nat option \<Rightarrow> nat option \<Rightarrow> string \<Rightarrow> exn + int"
  Create_Folder :: "trace \<Rightarrow> dev \<Rightarrow> string option \<Rightarrow> nat option \<Rightarrow> nat option \<Rightarrow> exn + nat"
  Get_File_To_File :: "trace \<Rightarrow> dev \<Rightarrow> nat \<Rightarrow> string \<Rightarrow> exn + int"
  Send_File_From_File ::
    "trace \<Rightarrow> dev \<Rightarrow> string \<Rightarrow> nat \<Rightarrow> string \<Rightarrow> nat \<Rightarrow> nat option \<Rightarrow> nat option \<Rightarrow> exn + int"
  mkdirp :: "trace \<Rightarrow> string \<Rightarrow> exn option"

text \<open>The fields \<open>this.device\<close> and \<open>this.storageId\<close>; the constructor sets both to \<open>null\<close>.\<close>

record mtp =
  device :: "dev option"
  storageId :: "nat option"

definition constructor :: mtp where
  "constructor = \<lparr>device = None, storageId = None\<rparr>"

definition throwMtpError :: "err + 'a" where
  "throwMtpError = Inl NO_MTP"

text \<open>\<open>getExtension\<close>: \<open>null\<close> for a folder, else the \<open>ext\<close> of \<open>path.parse\<close>.\<close>

definition getExtension :: "env \<Rightarrow> string \<Rightarrow> bool \<Rightarrow> string option" where
  "getExtension e fileName isFolder0 = (if isFolder0 then None else Some (path_ext e fileName))"

subsection \<open>Enumeration of the device\<close>

text \<open>
  \<open>__listMtpFileTree\<close>. The array \<open>fileTreeStructure\<close> is filled in place, so the model
  returns the error (or none), the array as the call leaves it, and the calls made. The
  recursive call is made without \<open>ignoreHiddenFiles\<close>, which then takes its default
  \<open>false\<close>, and its result is not looked at. A device may hold a folder inside itself, so
  the depth of the recursion is bounded by \<open>fuel\<close>; \<open>None\<close> means the bound was reached.
\<close>

definition mkFileInfo :: "env \<Rightarrow> string \<Rightarrow> file_t \<Rightarrow> string \<Rightarrow> fileInfo" where
  "mkFileInfo e parentPath file nm =
     (let fullPath = path_join parentPath nm;
          isFolder0 = (FILETYPE_FOLDER e = file_type file)
      in \<lparr>id' = file_id file, name = nm, size' = file_size file, isFolder = isFolder0,
          parentId = file_parentId file, type' = file_type file,
          storageId' = file_storageId file, path = fullPath,
          extension = getExtension e fullPath isFolder0,
          dateAdded = formatDate e (file_modificationDate file)\<rparr>)"

fun listMtpFileTree_internal ::
    "nat \<Rightarrow> env \<Rightarrow> mtp \<Rightarrow> nat option \<Rightarrow> bool \<Rightarrow> node list \<Rightarrow> string \<Rightarrow> bool \<Rightarrow> trace
      \<Rightarrow> (err option \<times> node list \<times> trace) option"
  and listMtpFileTree_loop ::
    "nat \<Rightarrow> env \<Rightarrow> mtp \<Rightarrow> bool \<Rightarrow> string \<Rightarrow> bool \<Rightarrow> file_t list \<Rightarrow> node list \<Rightarrow> trace
      \<Rightarrow> (err option \<times> node list \<times> trace) option"
where
  "listMtpFileTree_internal fuel e st folderId recursive fileTreeStructure parentPath
     ignoreHiddenFiles t =
     (case device st of
        None \<Rightarrow> Some (Some NO_MTP, fileTreeStructure, t)
      | Some d \<Rightarrow>
          (case Get_Files_And_Folders e t d (storageId st) folderId of
             Inl x \<Rightarrow>
               Some (Some (Thrown x), fileTreeStructure,
                     t @ [Get_Files_And_Folders_call d (storageId st) folderId])
           | Inr files \<Rightarrow>
               listMtpFileTree_loop fuel e st recursive parentPath ignoreHiddenFiles files
                 fileTreeStructure
                 (t @ [Get_Files_And_Folders_call d (storageId st) folderId])))"
| "listMtpFileTree_loop fuel e st recursive parentPath ignoreHiddenFiles []
     fileTreeStructure t = Some (None, fileTreeStructure, t)"
| "listMtpFileTree_loop fuel e st recursive parentPath ignoreHiddenFiles (file # files)
     fileTreeStructure t =
     (case file_name file of
        None \<Rightarrow> Some (Some (Thrown TypeError), fileTreeStructure, t)
      | Some nm \<Rightarrow>
          if ignoreHiddenFiles \<and> hiddenPattern_test nm then
            listMtpFileTree_loop fuel e st recursive parentPath ignoreHiddenFiles files
              fileTreeStructure t
          else if FILETYPE_FOLDER e = file_type file \<and> recursive then
            (case fuel of
               0 \<Rightarrow> None
             | Suc fuel' \<Rightarrow>
                 (case listMtpFileTree_internal fuel' e st (Some (file_id file)) recursive []
                         (path_join parentPath nm) False t of
                    None \<Rightarrow> None
                  | Some (_, sub, t') \<Rightarrow>
                      listMtpFileTree_loop fuel e st recursive parentPath ignoreHiddenFiles
                        files
                        (fileTreeStructure @ [Node (mkFileInfo e parentPath file nm) sub]) t'))
          else
            listMtpFileTree_loop fuel e st recursive parentPath ignoreHiddenFiles files
              (fileTreeStructure @ [Node (mkFileInfo e parentPath file nm) []]) t)"

text \<open>
  The call \<open>__listMtpFileTree({folderId, recursive: false})\<close> as \<open>resolvePath\<close> and
  \<open>fileExists\<close> make it, with its result read as \<open>{error, data}\<close>. Without recursion the
  bound is never reached (lemma \<open>nonrecursive_returns\<close> below).
\<close>

definition listMtpFileTree_nonrecursive ::
    "env \<Rightarrow> mtp \<Rightarrow> nat option \<Rightarrow> trace \<Rightarrow> (err + node list) \<times> trace" where
  "listMtpFileTree_nonrecursive e st folderId t =
     (case listMtpFileTree_internal 0 e st folderId False [] [] False t of
        None \<Rightarrow> (Inl (Thrown TypeError), t)
      | Some (None, data, t') \<Rightarrow> (Inr data, t')
      | Some (Some er, data, t') \<Rightarrow> (Inl er, t'))"

subsection \<open>Path resolution\<close>

text \<open>
  The result of \<open>resolvePath\<close>: the object \<open>{id: FILES_AND_FOLDERS_ROOT}\<close> for the root, or
  the \<open>fileInfo\<close> found for the last chunk.
\<close>

datatype pathProps = RootPathProps nat | FoundItem node

fun pathProps_id :: "pathProps \<Rightarrow> nat" where
  "pathProps_id (RootPathProps i) = i"
| "pathProps_id (FoundItem n) = id' (info n)"

fun resolvePath_loop ::
    "env \<Rightarrow> mtp \<Rightarrow> string list \<Rightarrow> pathProps \<Rightarrow> trace \<Rightarrow> (err + pathProps) \<times> trace" where
  "resolvePath_loop e st [] foundItem t = (Inr foundItem, t)"
| "resolvePath_loop e st (item # chunks) foundItem t =
     (case listMtpFileTree_nonrecursive e st (Some (pathProps_id foundItem)) t of
        (Inl er, t') \<Rightarrow> (Inl er, t')
      | (Inr listMtpFileTreeData, t') \<Rightarrow>
          (case find (\<lambda>n. name (info n) = item) listMtpFileTreeData of
             None \<Rightarrow> (Inl INVALID_NOT_FOUND, t')
           | Some n \<Rightarrow> resolvePath_loop e st chunks (FoundItem n) t'))"

definition resolvePath ::
    "env \<Rightarrow> mtp \<Rightarrow> string option \<Rightarrow> trace \<Rightarrow> (err + pathProps) \<times> trace" where
  "resolvePath e st filePath t =
     (case device st of
        None \<Rightarrow> (throwMtpError, t)
      | Some d \<Rightarrow>
          (case filePath of
             None \<Rightarrow> (Inl INVALID_PATH_RESOLVE, t)
           | Some fp \<Rightarrow>
               let p = path_resolve (cwd e) fp;
                   rootPathProps = RootPathProps (FILES_AND_FOLDERS_ROOT e)
               in if p = ''/'' then (Inr rootPathProps, t)
                  else resolvePath_loop e st (drop 1 (split_slash p)) rootPathProps t))"

subsection \<open>File information, existence, deletion, renaming\<close>

datatype fileInfoData = PathInfo pathProps | NativeInfo file_t

fun fileInfoData_name :: "fileInfoData \<Rightarrow> string option" where
  "fileInfoData_name (NativeInfo f) = file_name f"
| "fileInfoData_name (PathInfo (FoundItem n)) = Some (name (info n))"
| "fileInfoData_name (PathInfo (RootPathProps i)) = None"

definition getFileInfo ::
    "env \<Rightarrow> mtp \<Rightarrow> string option \<Rightarrow> nat option \<Rightarrow> trace \<Rightarrow> (err + fileInfoData) \<times> trace" where
  "getFileInfo e st filePath fileId t =
     (case device st of
        None \<Rightarrow> (throwMtpError, t)
      | Some d \<Rightarrow>
          (case filePath of
             Some fp \<Rightarrow>
               (case resolvePath e st (Some fp) t of
                  (Inl er, t') \<Rightarrow> (Inl er, t')
                | (Inr resolvePathData, t') \<Rightarrow> (Inr (PathInfo resolvePathData), t'))
           | None \<Rightarrow>
               (case Get_Filemetadata e t d fileId of
                  Inl x \<Rightarrow> (Inl (Thrown x), t @ [Get_Filemetadata_call d fileId])
                | Inr None \<Rightarrow> (Inl FILE_INFO_FAILED, t @ [Get_Filemetadata_call d fileId])
                | Inr (Some fi) \<Rightarrow>
                    if undefinedOrNull (file_name fi)
                    then (Inl FILE_INFO_FAILED, t @ [Get_Filemetadata_call d fileId])
                    else (Inr (NativeInfo fi), t @ [Get_Filemetadata_call d fileId]))))"

text \<open>\<open>fileExists\<close>: the data is \<open>false\<close> (\<open>None\<close>) or the entry found.\<close>

definition fileExists ::
    "env \<Rightarrow> mtp \<Rightarrow> string option \<Rightarrow> string option \<Rightarrow> nat option \<Rightarrow> trace
      \<Rightarrow> (err + pathProps option) \<times> trace" where
  "fileExists e st filePath fileName parentId0 t =
     (case device st of
        None \<Rightarrow> (throwMtpError, t)
      | Some d \<Rightarrow>
          (case filePath of
             Some fp \<Rightarrow>
               (case resolvePath e st (Some fp) t of
                  (Inl er, t') \<Rightarrow> (Inl er, t')
                | (Inr resolvePathData, t') \<Rightarrow> (Inr (Some resolvePathData), t'))
           | None \<Rightarrow>
               (case listMtpFileTree_nonrecursive e st parentId0 t of
                  (Inl er, t') \<Rightarrow> (Inl er, t')
                | (Inr listMtpFileTreeData, t') \<Rightarrow>
                    (case find (\<lambda>n. Some (name (info n)) = fileName) listMtpFileTreeData of
                       None \<Rightarrow> (Inr None, t')
                     | Some n \<Rightarrow> (Inr (Some (FoundItem n)), t')))))"

text \<open>
  The step shared by \<open>deleteFile\<close> and \<open>renameFile\<close>: \<open>_fileId\<close> is \<open>fileId\<close>, or the id that
  \<open>filePath\<close> resolves to when a path is given.
\<close>

definition fileId_of ::
    "env \<Rightarrow> mtp \<Rightarrow> string option \<Rightarrow> nat option \<Rightarrow> trace \<Rightarrow> (err + nat option) \<times> trace" where
  "fileId_of e st filePath fileId t =
     (case filePath of
        None \<Rightarrow> (Inr fileId, t)
      | Some fp \<Rightarrow>
          (case resolvePath e st (Some fp) t of
             (Inl er, t') \<Rightarrow> (Inl er, t')
           | (Inr resolvePathData, t') \<Rightarrow> (Inr (Some (pathProps_id resolvePathData)), t')))"

definition deleteFile ::
    "env \<Rightarrow> mtp \<Rightarrow> string option \<Rightarrow> nat option \<Rightarrow> trace \<Rightarrow> (err + bool) \<times> trace" where
  "deleteFile e st filePath fileId t =
     (case device st of
        None \<Rightarrow> (throwMtpError, t)
      | Some d \<Rightarrow>
          (case fileId_of e st filePath fileId t of
             (Inl er, t0) \<Rightarrow> (Inl er, t0)
           | (Inr fid, t0) \<Rightarrow>
               (case Destroy_file e t0 d fid of
                  Inl x \<Rightarrow> (Inl (Thrown x), t0 @ [Destroy_file_call d fid])
                | Inr _ \<Rightarrow> (Inr True, t0 @ [Destroy_file_call d fid]))))"

text \<open>
  \<open>newfileName.trim() === ''\<close>: the name consists of white space and line terminators
  only. A string is the list of the bytes of its UTF-8 encoding, so a code point beyond
  ASCII is a sequence of bytes. \<open>whiteSpace\<close> lists the encodings of the code points that
  \<open>String.prototype.trim\<close> removes: U+0009 to U+000D, U+0020, U+00A0, U+1680, U+2000 to
  U+200A, U+2028, U+2029, U+202F, U+205F, U+3000 and U+FEFF. \<open>trim_scan\<close> reads the name
  byte by byte; \<open>pending\<close> holds the bytes read of a code point not yet complete.
\<close>

definition whiteSpace :: "nat list list" where
  "whiteSpace =
     [ [9], [10], [11], [12], [13], [32], [194, 160], [225, 154, 128],
       [226, 128, 128], [226, 128, 129], [226, 128, 130], [226, 128, 131], [226, 128, 132],
       [226, 128, 133], [226, 128, 134], [226, 128, 135], [226, 128, 136], [226, 128, 137],
       [226, 128, 138], [226, 128, 168], [226, 128, 169], [226, 128, 175], [226, 129, 159],
       [227, 128, 128], [239, 187, 191] ]"

definition isWhiteSpace :: "nat list \<Rightarrow> bool" where
  "isWhiteSpace w = (w \<in> set whiteSpace)"

definition startsWhiteSpace :: "nat list \<Rightarrow> bool" where
  "startsWhiteSpace w = list_ex (\<lambda>x. take (length w) x = w) whiteSpace"

fun trim_scan :: "nat list \<Rightarrow> string \<Rightarrow> bool" where
  "trim_scan pending [] = (pending = [])"
| "trim_scan pending (c # cs) =
     (let w = pending @ [of_char c]
      in if isWhiteSpace w then trim_scan [] cs
         else if startsWhiteSpace w then trim_scan w cs
         else False)"

definition trim_is_empty :: "string \<Rightarrow> bool" where
  "trim_is_empty s = trim_scan [] s"

definition renameFile ::
    "env \<Rightarrow> mtp \<Rightarrow> string option \<Rightarrow> string option \<Rightarrow> nat option \<Rightarrow> trace
      \<Rightarrow> (err + bool) \<times> trace" where
  "renameFile e st filePath newfileName fileId t =
     (case device st of
        None \<Rightarrow> (throwMtpError, t)
      | Some d \<Rightarrow>
          (case newfileName of
             None \<Rightarrow> (Inl ILLEGAL_FILE_NAME, t)
           | Some nn \<Rightarrow>
               if CHR ''/'' \<in> set nn \<or> trim_is_empty nn then (Inl ILLEGAL_FILE_NAME, t)
               else
                 (case fileId_of e st filePath fileId t of
                    (Inl er, t0) \<Rightarrow> (Inl er, t0)
                  | (Inr fid, t0) \<Rightarrow>
                      (case Set_File_Name e t0 d fid (storageId st) nn of
                         Inl x \<Rightarrow>
                           (Inl (Thrown x), t0 @ [Set_File_Name_call d fid (storageId st) nn])
                       | Inr renamed \<Rightarrow>
                           if renamed \<noteq> 0 then
                             (case getFileInfo e st None fid
                                     (t0 @ [Set_File_Name_call d fid (storageId st) nn]) of
                                (Inl getFileInfoError, t2) \<Rightarrow> (Inr True, t2)
                              | (Inr getFileInfoData, t2) \<Rightarrow>
                                  if fileInfoData_name getFileInfoData \<noteq> Some nn
                                  then (Inl RENAME_FAILED, t2)
                                  else (Inr True, t2))
                           else (Inr True, t0 @ [Set_File_Name_call d fid (storageId st) nn])))))"

subsection \<open>Folder creation\<close>

text \<open>\<open>fileExistsData.id\<close> and \<open>fileExistsData.isFolder\<close>; both are \<open>undefined\<close> on \<open>false\<close>.\<close>

fun existsData_id :: "pathProps option \<Rightarrow> nat option" where
  "existsData_id None = None"
| "existsData_id (Some x) = Some (pathProps_id x)"

fun existsData_isFolder :: "pathProps option \<Rightarrow> bool" where
  "existsData_isFolder (Some (FoundItem n)) = isFolder (info n)"
| "existsData_isFolder _ = False"

text \<open>
  The first half of \<open>createFolder\<close>: the name and the parent come from \<open>newFolderPath\<close> when
  it is given, else from \<open>newFolderName\<close> and \<open>parentId\<close>.
\<close>

definition createFolder_target ::
    "env \<Rightarrow> mtp \<Rightarrow> string option \<Rightarrow> nat option \<Rightarrow> string option \<Rightarrow> trace
      \<Rightarrow> (err + string option \<times> nat option) \<times> trace" where
  "createFolder_target e st newFolderPath parentId0 newFolderName t =
     (case newFolderPath of
        Some nfp \<Rightarrow>
          (let p = path_resolve (cwd e) nfp
           in case resolvePath e st (Some (path_dirname p)) t of
                (Inl er, t') \<Rightarrow> (Inl er, t')
              | (Inr resolvePathData, t') \<Rightarrow>
                  (Inr (Some (path_basename p), Some (pathProps_id resolvePathData)), t'))
      | None \<Rightarrow> (Inr (newFolderName, parentId0), t))"

definition createFolder ::
    "env \<Rightarrow> mtp \<Rightarrow> string option \<Rightarrow> nat option \<Rightarrow> string option \<Rightarrow> trace
      \<Rightarrow> (err + nat) \<times> trace" where
  "createFolder e st newFolderPath parentId0 newFolderName t =
     (case device st of
        None \<Rightarrow> (throwMtpError, t)
      | Some d \<Rightarrow>
          (case createFolder_target e st newFolderPath parentId0 newFolderName t of
             (Inl er, t0) \<Rightarrow> (Inl er, t0)
           | (Inr (nm, pid), t0) \<Rightarrow>
               (case Create_Folder e t0 d nm pid (storageId st) of
                  Inl x \<Rightarrow> (Inl (Thrown x), t0 @ [Create_Folder_call d nm pid (storageId st)])
                | Inr createdFolder \<Rightarrow>
                    if createdFolder = 0 then
                      (case fileExists e st None nm pid
                              (t0 @ [Create_Folder_call d nm pid (storageId st)]) of
                         (Inl fileExistsError, t2) \<Rightarrow> (Inl fileExistsError, t2)
                       | (Inr fileExistsData, t2) \<Rightarrow>
                           (case existsData_id fileExistsData of
                              None \<Rightarrow> (Inl CREATE_FOLDER_FAILED, t2)
                            | Some i \<Rightarrow>
                                if \<not> existsData_isFolder fileExistsData
                                then (Inl CREATE_FOLDER_FILE_FAILED, t2)
                                else (Inr i, t2)))
                    else (Inr createdFolder, t0 @ [Create_Folder_call d nm pid (storageId st)]))))"

subsection \<open>The public enumeration\<close>

text \<open>
  \<open>listMtpFileTree\<close> calls \<open>path.resolve(folderPath)\<close> before anything else and outside any
  \<open>try\<close>: with \<open>folderPath\<close> left at its default \<open>null\<close> the promise is rejected with a
  \<open>TypeError\<close> (\<open>Inl\<close>). \<open>None\<close> is the bound on the depth being reached.
\<close>

definition listMtpFileTree ::
    "nat \<Rightarrow> env \<Rightarrow> mtp \<Rightarrow> string option \<Rightarrow> bool \<Rightarrow> bool \<Rightarrow> trace
      \<Rightarrow> (exn + (err + node list) \<times> trace) option" where
  "listMtpFileTree fuel e st folderPath recursive ignoreHiddenFiles t =
     (case folderPath of
        None \<Rightarrow> Some (Inl TypeError)
      | Some fp \<Rightarrow>
          (let filePath = path_resolve (cwd e) fp
           in case resolvePath e st (Some filePath) t of
                (Inl er, t') \<Rightarrow> Some (Inr (Inl er, t'))
              | (Inr resolvePathData, t') \<Rightarrow>
                  (case listMtpFileTree_internal fuel e st (Some (pathProps_id resolvePathData))
                          recursive [] filePath ignoreHiddenFiles t' of
                     None \<Rightarrow> None
                   | Some (Some er, data, t'') \<Rightarrow> Some (Inr (Inl er, t''))
                   | Some (None, data, t'') \<Rightarrow> Some (Inr (Inr data, t'')))))"

subsection \<open>Download\<close>

definition downloadFile ::
    "env \<Rightarrow> mtp \<Rightarrow> string \<Rightarrow> fileInfo \<Rightarrow> trace \<Rightarrow> (err + int) \<times> trace" where
  "downloadFile e st destinationFilePath file t =
     (case device st of
        None \<Rightarrow> (throwMtpError, t)
      | Some d \<Rightarrow>
          (case Get_File_To_File e t d (id' file) destinationFilePath of
             Inl x \<Rightarrow>
               (Inl (Thrown x), t @ [Get_File_To_File_call d (id' file) destinationFilePath])
           | Inr downloadedFile \<Rightarrow>
               if downloadedFile \<noteq> 0
               then (Inl DOWNLOAD_FILE_FAILED,
                     t @ [Get_File_To_File_call d (id' file) destinationFilePath])
               else (Inr downloadedFile,
                     t @ [Get_File_To_File_call d (id' file) destinationFilePath])))"

text \<open>\<open>promisifiedMkdir\<close>: the error that \<open>mkdirp\<close> hands to its callback, if any.\<close>

definition promisifiedMkdir :: "env \<Rightarrow> string \<Rightarrow> trace \<Rightarrow> exn option \<times> trace" where
  "promisifiedMkdir e newFolderPath t = (mkdirp e t newFolderPath, t @ [mkdirp_call newFolderPath])"

text \<open>
  \<open>downloadFileTree\<close> and its \<open>for\<close> loop. The recursive call leaves \<open>rootNode\<close> at its
  default \<open>false\<close>.
\<close>

fun downloadFileTree ::
    "env \<Rightarrow> mtp \<Rightarrow> bool \<Rightarrow> node list \<Rightarrow> string \<Rightarrow> trace \<Rightarrow> (err + bool) \<times> trace"
  and downloadFileTree_loop ::
    "env \<Rightarrow> mtp \<Rightarrow> node list \<Rightarrow> string \<Rightarrow> trace \<Rightarrow> (err + bool) \<times> trace"
where
  "downloadFileTree e st rootNode nodes destinationFilePath t =
     (case device st of
        None \<Rightarrow> (throwMtpError, t)
      | Some d \<Rightarrow>
          if rootNode \<and> length nodes < 1 then (Inl NO_FILES_COPIED, t)
          else downloadFileTree_loop e st nodes destinationFilePath t)"
| "downloadFileTree_loop e st [] destinationFilePath t = (Inr True, t)"
| "downloadFileTree_loop e st (Node item cs # nodes) destinationFilePath t =
     (let localFilePath = path_join destinationFilePath (name item)
      in if isFolder item then
           (case promisifiedMkdir e localFilePath t of
              (Some promisifiedMkdirError, t1) \<Rightarrow> (Inl (Thrown promisifiedMkdirError), t1)
            | (None, t1) \<Rightarrow>
                (case downloadFileTree e st False cs localFilePath t1 of
                   (Inl downloadFileTreeError, t2) \<Rightarrow> (Inl downloadFileTreeError, t2)
                 | (Inr _, t2) \<Rightarrow> downloadFileTree_loop e st nodes destinationFilePath t2))
         else
           (case downloadFile e st localFilePath item t of
              (Inl downloadedFileError, t1) \<Rightarrow> (Inl downloadedFileError, t1)
            | (Inr _, t1) \<Rightarrow> downloadFileTree_loop e st nodes destinationFilePath t1))"

subsection \<open>Upload\<close>

definition uploadFile ::
    "env \<Rightarrow> mtp \<Rightarrow> string \<Rightarrow> nat option \<Rightarrow> nat \<Rightarrow> trace \<Rightarrow> (err + int) \<times> trace" where
  "uploadFile e st filePath parentId0 size0 t =
     (case device st of
        None \<Rightarrow> (throwMtpError, t)
      | Some d \<Rightarrow>
          (let c = Send_File_From_File_call d filePath size0 (path_basename filePath)
                     (FILETYPE_UNKNOWN e) parentId0 (storageId st)
           in case Send_File_From_File e t d filePath size0 (path_basename filePath)
                     (FILETYPE_UNKNOWN e) parentId0 (storageId st) of
                Inl x \<Rightarrow> (Inl (Thrown x), t @ [c])
              | Inr uploadedFile \<Rightarrow>
                  if uploadedFile \<noteq> 0 then (Inl UPLOAD_FILE_FAILED, t @ [c])
                  else (Inr uploadedFile, t @ [c])))"

text \<open>
  \<open>uploadFileTree\<close> and its \<open>for\<close> loop over \<open>nodes\<close> with the parent \<open>_parentId\<close>. The
  recursive call passes \<open>parentId\<close> and no \<open>folderPath\<close>.
\<close>

fun uploadFileTree ::
    "env \<Rightarrow> mtp \<Rightarrow> node list \<Rightarrow> string option \<Rightarrow> nat option \<Rightarrow> trace
      \<Rightarrow> (err + bool) \<times> trace"
  and uploadFileTree_loop ::
    "env \<Rightarrow> mtp \<Rightarrow> node list \<Rightarrow> nat option \<Rightarrow> trace \<Rightarrow> (err + bool) \<times> trace"
where
  "uploadFileTree e st nodes folderPath parentId0 t =
     (case device st of
        None \<Rightarrow> (throwMtpError, t)
      | Some d \<Rightarrow>
          (case folderPath of
             Some fp \<Rightarrow>
               (case resolvePath e st (Some (path_resolve (cwd e) fp)) t of
                  (Inl resolvePathError, t') \<Rightarrow> (Inl resolvePathError, t')
                | (Inr resolvePathData, t') \<Rightarrow>
                    uploadFileTree_loop e st nodes (Some (pathProps_id resolvePathData)) t')
           | None \<Rightarrow> uploadFileTree_loop e st nodes parentId0 t))"
| "uploadFileTree_loop e st [] pid t = (Inr True, t)"
| "uploadFileTree_loop e st (Node item cs # nodes) pid t =
     (if isFolder item then
        (case createFolder e st None pid (Some (name item)) t of
           (Inl createFolderError, t1) \<Rightarrow> (Inl createFolderError, t1)
         | (Inr createFolderData, t1) \<Rightarrow>
             (case uploadFileTree e st cs None (Some createFolderData) t1 of
                (Inl uploadFileTreeError, t2) \<Rightarrow> (Inl uploadFileTreeError, t2)
              | (Inr _, t2) \<Rightarrow> uploadFileTree_loop e st nodes pid t2))
      else
        (case fileExists e st None (Some (name item)) pid t of
           (Inl fileExistsError, t1) \<Rightarrow> (Inl fileExistsError, t1)
         | (Inr fileExistsData, t1) \<Rightarrow>
             (case (case fileExistsData of
                      None \<Rightarrow> (Inr True, t1)
                    | Some x \<Rightarrow> deleteFile e st None (Some (pathProps_id x)) t1) of
                (Inl deleteFileError, t2) \<Rightarrow> (Inl deleteFileError, t2)
              | (Inr _, t2) \<Rightarrow>
                  (case uploadFile e st (path item) pid (size' item) t2 of
                     (Inl uploadFileError, t3) \<Rightarrow> (Inl uploadFileError, t3)
                   | (Inr _, t3) \<Rightarrow> uploadFileTree_loop e st nodes pid t3))))"

subsection \<open>Release\<close>

text \<open>\<open>releaseDevice\<close> of the later variant sets \<open>this.device\<close> to \<open>null\<close> after the native call.\<close>

definition releaseDevice :: "env \<Rightarrow> mtp \<Rightarrow> trace \<Rightarrow> (err + bool) \<times> mtp \<times> trace" where
  "releaseDevice e st t =
     (case device st of
        None \<Rightarrow> (throwMtpError, st, t)
      | Some d \<Rightarrow>
          (case Release_Device e t d of
             Inl x \<Rightarrow> (Inl (Thrown x), st, t @ [Release_Device_call d])
           | Inr _ \<Rightarrow> (Inr True, st\<lparr>device := None\<rparr>, t @ [Release_Device_call d])))"

subsection \<open>The earlier variant\<close>

text \<open>
  \<open>releaseDevice\<close> of the earlier variant (the first class of the file): the native call
  is made and \<open>{data: null, error: null}\<close> is returned; \<open>this.device\<close> is not assigned.
\<close>

definition releaseDevice_v1 :: "env \<Rightarrow> mtp \<Rightarrow> trace \<Rightarrow> (err + unit) \<times> mtp \<times> trace" where
  "releaseDevice_v1 e st t =
     (case device st of
        None \<Rightarrow> (throwMtpError, st, t)
      | Some d \<Rightarrow>
          (case Release_Device e t d of
             Inl x \<Rightarrow> (Inl (Thrown x), st, t @ [Release_Device_call d])
           | Inr _ \<Rightarrow> (Inr (), st, t @ [Release_Device_call d])))"

text \<open>
  \<open>deleteFile\<close> of the earlier variant has no \<open>try\<close>: it returns the error object of
  \<open>throwMtpError\<close>, or the value of the native call (\<open>Inr (Inr v)\<close>), or throws (\<open>Inl\<close>).
\<close>

definition deleteFile_v1 ::
    "env \<Rightarrow> mtp \<Rightarrow> nat option \<Rightarrow> trace \<Rightarrow> (exn + (err + int)) \<times> trace" where
  "deleteFile_v1 e st fileId t =
     (case device st of
        None \<Rightarrow> (Inr throwMtpError, t)
      | Some d \<Rightarrow>
          (case Destroy_file e t d fileId of
             Inl x \<Rightarrow> (Inl x, t @ [Destroy_file_call d fileId])
           | Inr v \<Rightarrow> (Inr (Inr v), t @ [Destroy_file_call d fileId])))"

subsection \<open>Example devices\<close>

text \<open>An open session, and a device on which every call succeeds and every folder is empty.\<close>

definition open_st :: mtp where
  "open_st = \<lparr>device = Some (Dev 1), storageId = Some 65537\<rparr>"

definition quiet_env :: env where
  "quiet_env =
     \<lparr>cwd = ''/home/user'', FILES_AND_FOLDERS_ROOT = 4294967295, FILETYPE_FOLDER = 0,
      FILETYPE_UNKNOWN = 44, path_ext = (\<lambda>p. []), formatDate = (\<lambda>n. []),
      Release_Device = (\<lambda>t d. Inr ()),
      Get_Filemetadata = (\<lambda>t d i. Inr None),
      Get_Files_And_Folders = (\<lambda>t d s f. Inr []),
      Destroy_file = (\<lambda>t d i. Inr 0),
      Set_File_Name = (\<lambda>t d i s n. Inr 0),
      Create_Folder = (\<lambda>t d n p s. Inr 1),
      Get_File_To_File = (\<lambda>t d i p. Inr 0),
      Send_File_From_File = (\<lambda>t d p sz n ty pa s. Inr 0),
      mkdirp = (\<lambda>t p. None)\<rparr>"

definition entry :: "nat \<Rightarrow> string \<Rightarrow> nat \<Rightarrow> nat \<Rightarrow> nat \<Rightarrow> file_t" where
  "entry i nm sz ty parent =
     \<lparr>file_id = i, file_name = Some nm, file_size = sz, file_type = ty,
      file_parentId = parent, file_storageId = 65537, file_modificationDate = 0\<rparr>"

text \<open>The root holds the folder \<open>a\<close> (id 5), which holds the file \<open>b\<close> (id 9, 120 bytes).\<close>

definition tree_ab_env :: env where
  "tree_ab_env =
     quiet_env\<lparr>Get_Files_And_Folders :=
       (\<lambda>t d s f. if f = Some 4294967295 then Inr [entry 5 ''a'' 0 0 4294967295]
                  else if f = Some 5 then Inr [entry 9 ''b'' 120 44 5]
                  else Inr [])\<rparr>"

text \<open>
  The root holds the folder \<open>d\<close> (id 1) and the file \<open>.top\<close> (id 3); \<open>d\<close> holds the file
  \<open>.h\<close> (id 2).
\<close>

definition hidden_env :: env where
  "hidden_env =
     quiet_env\<lparr>Get_Files_And_Folders :=
       (\<lambda>t d s f. if f = Some 4294967295
                    then Inr [entry 1 ''d'' 0 0 4294967295, entry 3 ''.top'' 7 44 4294967295]
                  else if f = Some 1 then Inr [entry 2 ''.h'' 3 44 1]
                  else Inr [])\<rparr>"

text \<open>
  A device that answers \<open>Set_File_Name\<close> with the given status and leaves the name of the
  file at \<open>old\<close>.
\<close>

definition rename_env :: "int \<Rightarrow> env" where
  "rename_env status =
     quiet_env\<lparr>Set_File_Name := (\<lambda>t d i s n. Inr status),
               Get_Filemetadata := (\<lambda>t d i. Inr (Some (entry 7 ''old'' 10 44 4294967295)))\<rparr>"

text \<open>
  A device on which \<open>Create_Folder\<close> always returns 0 and the folder with id 1 holds the
  folder \<open>x\<close> (id 5) and the file \<open>y\<close> (id 6).
\<close>

definition conflict_env :: env where
  "conflict_env =
     quiet_env\<lparr>Create_Folder := (\<lambda>t d n p s. Inr 0),
               Get_Files_And_Folders :=
                 (\<lambda>t d s f. if f = Some 1 then Inr [entry 5 ''x'' 0 0 1, entry 6 ''y'' 10 44 1]
                            else Inr [])\<rparr>"

text \<open>
  A device on which \<open>Create_Folder\<close> always returns 0, the root holds the folder \<open>x\<close>
  (id 5) and the file \<open>y\<close> (id 6), and the folder \<open>x\<close> holds the file \<open>y\<close> (id 8).
\<close>

definition conflict_root_env :: env where
  "conflict_root_env =
     quiet_env\<lparr>Create_Folder := (\<lambda>t d n p s. Inr 0),
               Get_Files_And_Folders :=
                 (\<lambda>t d s f. if f = Some 4294967295
                              then Inr [entry 5 ''x'' 0 0 4294967295, entry 6 ''y'' 10 44 4294967295]
                            else if f = Some 5 then Inr [entry 8 ''y'' 10 44 5]
                            else Inr [])\<rparr>"

definition local_node :: "string \<Rightarrow> string \<Rightarrow> nat \<Rightarrow> bool \<Rightarrow> node list \<Rightarrow> node" where
  "local_node nm p sz folder cs =
     Node \<lparr>id' = 0, name = nm, size' = sz, isFolder = folder, parentId = 0, type' = 0,
           storageId' = 0, path = p, extension = None, dateAdded = []\<rparr> cs"

section \<open>Properties\<close>

subsection \<open>Paths\<close>

lemma path_resolve_root: "path_resolve c ''/'' = ''/''"
  by (simp add: path_resolve_def isAbsolute_def normalizeString_def)

lemma path_resolve_a_b: "path_resolve c ''/a/b'' = ''/a/b''"
  by (simp add: path_resolve_def isAbsolute_def normalizeString_def)

lemma path_join_empty_b: "path_join [] ''b'' = ''b''"
  by (simp add: path_join_def path_normalize_def isAbsolute_def normalizeString_def)

lemma path_resolve_empty:
  "isAbsolute c \<Longrightarrow> path_resolve c [] = path_resolve c c"
  by (auto simp: path_resolve_def isAbsolute_def Let_def split: list.splits)

subsection \<open>The enumeration of one folder\<close>

text \<open>
  Without recursion and without the hidden-file filter, the loop appends one childless
  node per entry; it never reaches the bound on the depth and makes no call of its own.
\<close>

lemma loop_filtered:
  "\<forall>f \<in> set files. file_name f \<noteq> None \<Longrightarrow>
   listMtpFileTree_loop fuel e st False parentPath ignoreHiddenFiles files acc t =
     Some (None,
           acc @ map (\<lambda>f. Node (mkFileInfo e parentPath f (the (file_name f))) [])
                   (filter (\<lambda>f. \<not> (ignoreHiddenFiles \<and> hiddenPattern_test (the (file_name f))))
                      files),
           t)"
  by (induction files arbitrary: acc) (auto split: option.splits)

lemma loop_plain:
  "\<forall>f \<in> set files. file_name f \<noteq> None \<Longrightarrow>
   listMtpFileTree_loop fuel e st False parentPath False files acc t =
     Some (None, acc @ map (\<lambda>f. Node (mkFileInfo e parentPath f (the (file_name f))) []) files, t)"
  by (induction files arbitrary: acc) (auto split: option.splits)

lemma nonrecursive_loop_returns:
  "\<exists>r. listMtpFileTree_loop fuel e st False parentPath ign files acc t = Some r"
  by (induction files arbitrary: acc) (auto split: option.splits)

lemma nonrecursive_returns:
  "\<exists>r. listMtpFileTree_internal fuel e st folderId False acc parentPath ign t = Some r"
  using nonrecursive_loop_returns by (auto split: option.splits sum.splits)

lemma nonrecursive_listing:
  assumes "device st = Some d"
    and "Get_Files_And_Folders e t d (storageId st) folderId = Inr files"
    and "\<forall>f \<in> set files. file_name f \<noteq> None"
  shows "listMtpFileTree_nonrecursive e st folderId t =
           (Inr (map (\<lambda>f. Node (mkFileInfo e [] f (the (file_name f))) []) files),
            t @ [Get_Files_And_Folders_call d (storageId st) folderId])"
  using assms by (simp add: listMtpFileTree_nonrecursive_def loop_plain)

lemma find_listing:
  assumes "\<forall>f \<in> set files. file_name f \<noteq> None"
  shows "find (\<lambda>n. name (info n) = nm)
           (map (\<lambda>f. Node (mkFileInfo e pp f (the (file_name f))) []) files) =
         map_option (\<lambda>f. Node (mkFileInfo e pp f (the (file_name f))) [])
           (find (\<lambda>f. file_name f = Some nm) files)"
  using assms by (induction files) (auto simp: mkFileInfo_def Let_def)

subsection \<open>The sequence of calls only grows\<close>

lemma nonrecursive_loop_trace:
  "listMtpFileTree_loop fuel e st False parentPath ign files acc t = Some (er, data, t') \<Longrightarrow> t' = t"
  by (induction files arbitrary: acc) (auto split: option.splits if_splits)

lemma nonrecursive_extends:
  "\<exists>u. snd (listMtpFileTree_nonrecursive e st folderId t) = t @ u"
  by (auto simp: listMtpFileTree_nonrecursive_def split: option.splits sum.splits
      dest: nonrecursive_loop_trace)

lemma resolvePath_loop_extends:
  "\<exists>u. snd (resolvePath_loop e st chunks foundItem t) = t @ u"
proof (induction chunks arbitrary: foundItem t)
  case Nil
  then show ?case by simp
next
  case (Cons item chunks)
  obtain r t1 where l: "listMtpFileTree_nonrecursive e st (Some (pathProps_id foundItem)) t = (r, t1)"
    by (cases "listMtpFileTree_nonrecursive e st (Some (pathProps_id foundItem)) t")
  obtain u where u: "t1 = t @ u"
    using nonrecursive_extends[of e st "Some (pathProps_id foundItem)" t] l by auto
  show ?case
  proof (cases r)
    case (Inl er)
    then show ?thesis using l u by simp
  next
    case (Inr data)
    show ?thesis
    proof (cases "find (\<lambda>n. name (info n) = item) data")
      case None
      then show ?thesis using l u Inr by simp
    next
      case (Some n)
      obtain v where "snd (resolvePath_loop e st chunks (FoundItem n) t1) = t1 @ v"
        using Cons.IH by blast
      then show ?thesis using l u Inr Some by simp
    qed
  qed
qed

lemma resolvePath_extends:
  "\<exists>u. snd (resolvePath e st filePath t) = t @ u"
  using resolvePath_loop_extends
  by (auto simp: resolvePath_def Let_def split: option.splits)

lemma fileExists_extends:
  "\<exists>u. snd (fileExists e st filePath fileName pid t) = t @ u"
proof (cases filePath)
  case None
  obtain r t1 where l: "listMtpFileTree_nonrecursive e st pid t = (r, t1)"
    by (cases "listMtpFileTree_nonrecursive e st pid t")
  obtain u where u: "t1 = t @ u"
    using nonrecursive_extends[of e st pid t] l by auto
  show ?thesis using None l u
    by (auto simp: fileExists_def split: option.splits sum.splits)
next
  case (Some fp)
  obtain r t1 where l: "resolvePath e st (Some fp) t = (r, t1)"
    by (cases "resolvePath e st (Some fp) t")
  obtain u where u: "t1 = t @ u"
    using resolvePath_extends[of e st "Some fp" t] l by auto
  show ?thesis using Some l u
    by (auto simp: fileExists_def split: option.splits sum.splits)
qed

lemma fileId_of_extends:
  "\<exists>u. snd (fileId_of e st filePath fileId t) = t @ u"
proof (cases filePath)
  case None
  then show ?thesis by (simp add: fileId_of_def)
next
  case (Some fp)
  obtain r t1 where l: "resolvePath e st (Some fp) t = (r, t1)"
    by (cases "resolvePath e st (Some fp) t")
  obtain u where u: "t1 = t @ u"
    using resolvePath_extends[of e st "Some fp" t] l by auto
  show ?thesis using Some l u
    by (auto simp: fileId_of_def split: sum.splits)
qed

lemma deleteFile_extends:
  "\<exists>u. snd (deleteFile e st filePath fileId t) = t @ u"
proof -
  obtain r t1 where l: "fileId_of e st filePath fileId t = (r, t1)"
    by (cases "fileId_of e st filePath fileId t")
  obtain u where u: "t1 = t @ u"
    using fileId_of_extends[of e st filePath fileId t] l by auto
  show ?thesis using l u
    by (auto simp: deleteFile_def split: option.splits sum.splits)
qed

lemma uploadFile_extends:
  "\<exists>u. snd (uploadFile e st filePath pid sz t) = t @ u"
  by (auto simp: uploadFile_def Let_def split: option.splits sum.splits)

lemma createFolder_target_extends:
  "\<exists>u. snd (createFolder_target e st newFolderPath pid newFolderName t) = t @ u"
proof (cases newFolderPath)
  case None
  then show ?thesis by (simp add: createFolder_target_def)
next
  case (Some nfp)
  let ?p = "Some (path_dirname (path_resolve (cwd e) nfp))"
  obtain r t1 where l: "resolvePath e st ?p t = (r, t1)"
    by (cases "resolvePath e st ?p t")
  obtain u where u: "t1 = t @ u"
    using resolvePath_extends[of e st ?p t] l by auto
  show ?thesis using Some l u
    by (auto simp: createFolder_target_def Let_def split: sum.splits)
qed

lemma createFolder_extends:
  "\<exists>u. snd (createFolder e st newFolderPath pid newFolderName t) = t @ u"
proof (cases "device st")
  case None
  then show ?thesis by (simp add: createFolder_def)
next
  case (Some d)
  obtain r t0 where l: "createFolder_target e st newFolderPath pid newFolderName t = (r, t0)"
    by (cases "createFolder_target e st newFolderPath pid newFolderName t")
  obtain u where u: "t0 = t @ u"
    using createFolder_target_extends[of e st newFolderPath pid newFolderName t] l by auto
  show ?thesis
  proof (cases r)
    case (Inl er)
    then show ?thesis using Some l u by (simp add: createFolder_def)
  next
    case (Inr tgt)
    obtain nm p where tgt: "tgt = (nm, p)" by (cases tgt)
    let ?t1 = "t0 @ [Create_Folder_call d nm p (storageId st)]"
    obtain r2 t2 where f: "fileExists e st None nm p ?t1 = (r2, t2)"
      by (cases "fileExists e st None nm p ?t1")
    obtain v where v: "t2 = ?t1 @ v"
      using fileExists_extends[of e st None nm p ?t1] f by auto
    show ?thesis using Some l u Inr tgt f v
      by (auto simp: createFolder_def split: sum.splits option.splits)
  qed
qed

lemma uploadFile_calls:
  "device st = Some d \<Longrightarrow>
     snd (uploadFile e st filePath pid sz t) =
       t @ [Send_File_From_File_call d filePath sz (path_basename filePath) (FILETYPE_UNKNOWN e)
              pid (storageId st)]"
  by (simp add: uploadFile_def Let_def split: sum.splits)

lemma uploadFileTree_extends:
  "\<exists>u. snd (uploadFileTree e st nodes folderPath pid t) = t @ u"
  "\<exists>u. snd (uploadFileTree_loop e st nodes pid' t') = t' @ u"
proof (induction e st nodes folderPath pid t and e st nodes pid' t'
        rule: uploadFileTree_uploadFileTree_loop.induct)
  case (1 e st nodes folderPath parentId0 t)
  show ?case
  proof (cases "device st")
    case None
    then show ?thesis by simp
  next
    case (Some d)
    show ?thesis
    proof (cases folderPath)
      case None
      then show ?thesis using Some "1.IH"(1)[OF Some None] by simp
    next
      case fp: (Some fp)
      let ?p = "Some (path_resolve (cwd e) fp)"
      obtain r t1 where l: "resolvePath e st ?p t = (r, t1)"
        by (cases "resolvePath e st ?p t")
      obtain u where u: "t1 = t @ u"
        using resolvePath_extends[of e st ?p t] l by auto
      show ?thesis
      proof (cases r)
        case (Inl er)
        then show ?thesis using Some fp l u by simp
      next
        case (Inr x)
        obtain v where "snd (uploadFileTree_loop e st nodes (Some (pathProps_id x)) t1) = t1 @ v"
          using "1.IH"(2)[OF Some fp l[symmetric] Inr] by blast
        then show ?thesis using Some fp l u Inr by simp
      qed
    qed
  qed
next
  case (2 e st pid t)
  then show ?case by simp
next
  case (3 e st item cs nodes pid t)
  show ?case
  proof (cases "isFolder item")
    case True
    obtain r u where c: "createFolder e st None pid (Some (name item)) t = (r, t @ u)"
      using createFolder_extends[of e st None pid "Some (name item)" t]
      by (cases "createFolder e st None pid (Some (name item)) t") auto
    show ?thesis
    proof (cases r)
      case (Inl er)
      then show ?thesis using True c by simp
    next
      case (Inr newId)
      obtain r2 v where s: "uploadFileTree e st cs None (Some newId) (t @ u) = (r2, (t @ u) @ v)"
        using "3.IH"(1)[OF True c[symmetric] Inr]
        by (cases "uploadFileTree e st cs None (Some newId) (t @ u)") auto
      show ?thesis
      proof (cases r2)
        case (Inl er)
        then show ?thesis using True c Inr s by simp
      next
        case ok: (Inr b)
        obtain w where "snd (uploadFileTree_loop e st nodes pid ((t @ u) @ v)) = ((t @ u) @ v) @ w"
          using "3.IH"(2)[OF True c[symmetric] Inr s[symmetric] ok] by blast
        then show ?thesis using True c Inr s ok by simp
      qed
    qed
  next
    case False
    obtain r u where f: "fileExists e st None (Some (name item)) pid t = (r, t @ u)"
      using fileExists_extends[of e st None "Some (name item)" pid t]
      by (cases "fileExists e st None (Some (name item)) pid t") auto
    show ?thesis
    proof (cases r)
      case (Inl er)
      then show ?thesis using False f by simp
    next
      case (Inr ex)
      let ?del = "case ex of None \<Rightarrow> (Inr True, t @ u)
                  | Some x \<Rightarrow> deleteFile e st None (Some (pathProps_id x)) (t @ u)"
      obtain r2 v where dl: "?del = (r2, (t @ u) @ v)"
      proof (cases ex)
        case None
        then show ?thesis using that[of "Inr True" "[]"] by simp
      next
        case (Some x)
        then show ?thesis
          using deleteFile_extends[of e st None "Some (pathProps_id x)" "t @ u"] that
          by (cases "deleteFile e st None (Some (pathProps_id x)) (t @ u)") auto
      qed
      show ?thesis
      proof (cases r2)
        case (Inl er)
        then show ?thesis using False f Inr dl by simp
      next
        case dok: (Inr b)
        obtain r3 w where up:
          "uploadFile e st (path item) pid (size' item) ((t @ u) @ v) = (r3, ((t @ u) @ v) @ w)"
          using uploadFile_extends[of e st "path item" pid "size' item" "(t @ u) @ v"]
          by (cases "uploadFile e st (path item) pid (size' item) ((t @ u) @ v)") auto
        show ?thesis
        proof (cases r3)
          case (Inl er)
          then show ?thesis using False f Inr dl dok up by simp
        next
          case uok: (Inr c)
          obtain z where
            "snd (uploadFileTree_loop e st nodes pid (((t @ u) @ v) @ w)) = (((t @ u) @ v) @ w) @ z"
            using "3.IH"(3)[OF False f[symmetric] Inr dl[symmetric] dok up[symmetric] uok] by blast
          then show ?thesis using False f Inr dl dok up uok by simp
        qed
      qed
    qed
  qed
qed

text \<open>The loop of \<open>uploadFileTree\<close> over a list is the loop over its parts, one after the other.\<close>

lemma uploadFileTree_loop_append:
  "uploadFileTree_loop e st (xs @ ys) pid t =
     (case uploadFileTree_loop e st xs pid t of
        (Inl er, t') \<Rightarrow> (Inl er, t')
      | (Inr b, t') \<Rightarrow> uploadFileTree_loop e st ys pid t')"
proof (induction xs arbitrary: t)
  case Nil
  then show ?case by simp
next
  case (Cons x xs)
  obtain item cs where x: "x = Node item cs" by (cases x)
  show ?case unfolding x
    by (simp add: Cons.IH split: sum.splits prod.splits option.splits)
qed

text \<open>
  A call of \<open>uploadFileTree\<close>, with a path or with an id, is the call with the id of the
  parent it settles on, from the calls made to settle it.
\<close>

lemma uploadFileTree_from_parent:
  assumes "device st = Some d"
    and "case folderPath of
           None \<Rightarrow> pid = parentId0 \<and> ts = t0
         | Some fp \<Rightarrow>
             \<exists>r. resolvePath e st (Some (path_resolve (cwd e) fp)) t0 = (Inr r, ts)
                  \<and> pid = Some (pathProps_id r)"
  shows "uploadFileTree e st ns folderPath parentId0 t0 = uploadFileTree e st ns None pid ts"
  using assms by (cases folderPath) auto

lemma uploadFileTree_after:
  assumes dev: "device st = Some d"
    and start: "case folderPath of
                  None \<Rightarrow> pid = parentId0 \<and> ts = t0
                | Some fp \<Rightarrow>
                    \<exists>r. resolvePath e st (Some (path_resolve (cwd e) fp)) t0 = (Inr r, ts)
                         \<and> pid = Some (pathProps_id r)"
    and before: "uploadFileTree e st pre folderPath parentId0 t0 = (Inr b, t)"
  shows "uploadFileTree e st (pre @ rest) folderPath parentId0 t0 =
           uploadFileTree e st rest None pid t"
proof -
  have "uploadFileTree e st pre None pid ts = (Inr b, t)"
    using before uploadFileTree_from_parent[OF dev start, of pre] by simp
  then have "uploadFileTree e st (pre @ rest) None pid ts = uploadFileTree e st rest None pid t"
    using dev by (simp add: uploadFileTree_loop_append)
  then show ?thesis
    using uploadFileTree_from_parent[OF dev start, of "pre @ rest"] by simp
qed

subsection \<open>Looking an entry up by name\<close>

lemma fileExists_by_name:
  assumes "device st = Some d"
    and "Get_Files_And_Folders e t d (storageId st) pid = Inr files"
    and "\<forall>f \<in> set files. file_name f \<noteq> None"
  shows "fileExists e st None (Some nm) pid t =
           (Inr (map_option (\<lambda>f. FoundItem (Node (mkFileInfo e [] f (the (file_name f))) []))
                   (find (\<lambda>f. file_name f = Some nm) files)),
            t @ [Get_Files_And_Folders_call d (storageId st) pid])"
proof -
  have eq: "(\<lambda>n. Some (name (info n)) = Some nm) = (\<lambda>n. name (info n) = nm)" by auto
  show ?thesis
    using assms(1)
    by (cases "find (\<lambda>f. file_name f = Some nm) files")
       (simp_all add: fileExists_def nonrecursive_listing[OF assms] eq find_listing[OF assms(3)])
qed

lemma fileExists_null_name:
  assumes "device st = Some d"
    and "Get_Files_And_Folders e t d (storageId st) pid = Inr files"
    and "\<forall>f \<in> set files. file_name f \<noteq> None"
  shows "fileExists e st None None pid t =
           (Inr None, t @ [Get_Files_And_Folders_call d (storageId st) pid])"
proof -
  have "find (\<lambda>n. Some (name (info n)) = None) xs = None" for xs :: "node list"
    by (induction xs) auto
  then show ?thesis
    using assms(1) by (simp add: fileExists_def nonrecursive_listing[OF assms])
qed

subsection \<open>Resolving a path of two segments\<close>

text \<open>
  C1 (as amended). With a device open, let the listing of the root have \<open>a\<close> (id 5) as its
  first entry of that name, and the listing of the folder 5 have the file \<open>b\<close> (id 9, size
  120) as its first entry of that name. Then resolving \<open>/a/b\<close> makes these two listing
  calls and returns the node of \<open>b\<close>: id 9, size 120, not a folder, and its \<open>path\<close> is
  \<open>b\<close>, since \<open>resolvePath\<close> lists each level with the default empty \<open>parentPath\<close>.
\<close>

theorem resolvePath_a_b:
  assumes dev: "device st = Some d"
    and root: "Get_Files_And_Folders e t d (storageId st) (Some (FILES_AND_FOLDERS_ROOT e)) =
                 Inr rootFiles"
    and rootNamed: "\<forall>f \<in> set rootFiles. file_name f \<noteq> None"
    and a: "find (\<lambda>f. file_name f = Some ''a'') rootFiles = Some fa"
    and a_id: "file_id fa = 5"
    and sub: "Get_Files_And_Folders e
                (t @ [Get_Files_And_Folders_call d (storageId st) (Some (FILES_AND_FOLDERS_ROOT e))])
                d (storageId st) (Some 5) = Inr aFiles"
    and subNamed: "\<forall>f \<in> set aFiles. file_name f \<noteq> None"
    and b: "find (\<lambda>f. file_name f = Some ''b'') aFiles = Some fb"
    and b_id: "file_id fb = 9"
    and b_size: "file_size fb = 120"
    and b_file: "file_type fb \<noteq> FILETYPE_FOLDER e"
  shows "\<exists>n. resolvePath e st (Some ''/a/b'') t =
               (Inr (FoundItem n),
                t @ [Get_Files_And_Folders_call d (storageId st) (Some (FILES_AND_FOLDERS_ROOT e)),
                     Get_Files_And_Folders_call d (storageId st) (Some 5)])
             \<and> id' (info n) = 9 \<and> name (info n) = ''b'' \<and> path (info n) = ''b''
             \<and> size' (info n) = 120 \<and> \<not> isFolder (info n)"
proof -
  let ?t1 = "t @ [Get_Files_And_Folders_call d (storageId st) (Some (FILES_AND_FOLDERS_ROOT e))]"
  let ?mk = "\<lambda>f. Node (mkFileInfo e [] f (the (file_name f))) []"
  have l1: "listMtpFileTree_nonrecursive e st (Some (FILES_AND_FOLDERS_ROOT e)) t =
              (Inr (map ?mk rootFiles), ?t1)"
    using dev root rootNamed by (rule nonrecursive_listing)
  have l2: "listMtpFileTree_nonrecursive e st (Some 5) ?t1 =
              (Inr (map ?mk aFiles), ?t1 @ [Get_Files_And_Folders_call d (storageId st) (Some 5)])"
    using dev sub subNamed by (rule nonrecursive_listing)
  have nb: "file_name fb = Some ''b''"
    using b by (auto dest: find_Some_iff[THEN iffD1])
  have f1: "find (\<lambda>n. name (info n) = ''a'') (map ?mk rootFiles) = Some (?mk fa)"
    by (simp add: find_listing[OF rootNamed] a)
  have f2: "find (\<lambda>n. name (info n) = ''b'') (map ?mk aFiles) = Some (?mk fb)"
    by (simp add: find_listing[OF subNamed] b)
  have ida: "id' (mkFileInfo e [] fa (the (file_name fa))) = 5"
    using a_id by (simp add: mkFileInfo_def Let_def)
  have chunks: "drop 1 (split_slash ''/a/b'') = [''a'', ''b'']" by simp
  have res: "resolvePath e st (Some ''/a/b'') t =
               (Inr (FoundItem (?mk fb)),
                ?t1 @ [Get_Files_And_Folders_call d (storageId st) (Some 5)])"
    using dev by (simp add: resolvePath_def path_resolve_a_b chunks l1 f1 ida l2 f2)
  have props: "id' (info (?mk fb)) = 9 \<and> name (info (?mk fb)) = ''b''
                 \<and> path (info (?mk fb)) = ''b'' \<and> size' (info (?mk fb)) = 120
                 \<and> \<not> isFolder (info (?mk fb))"
    using b_id b_size b_file nb by (simp add: mkFileInfo_def Let_def path_join_empty_b)
  show ?thesis using res props by auto
qed

theorem resolvePath_a_b_witness:
  "\<exists>n. resolvePath tree_ab_env open_st (Some ''/a/b'') [] =
          (Inr (FoundItem n),
           [Get_Files_And_Folders_call (Dev 1) (Some 65537) (Some 4294967295),
            Get_Files_And_Folders_call (Dev 1) (Some 65537) (Some 5)])
        \<and> id' (info n) = 9 \<and> name (info n) = ''b'' \<and> path (info n) = ''b''
        \<and> size' (info n) = 120 \<and> \<not> isFolder (info n)"
  using resolvePath_a_b [of open_st "Dev 1" tree_ab_env "[]" "[entry 5 ''a'' 0 0 4294967295]"
          "entry 5 ''a'' 0 0 4294967295" "[entry 9 ''b'' 120 44 5]" "entry 9 ''b'' 120 44 5"]
  by (simp add: open_st_def tree_ab_env_def quiet_env_def entry_def)

text \<open>
  On the device of the scenario the node returned for \<open>/a/b\<close> has the path \<open>b\<close>; it is not
  the node with the path \<open>/a/b\<close>.
\<close>

theorem resolvePath_a_b_counterexample:
  "fst (resolvePath tree_ab_env open_st (Some ''/a/b'') []) =
     Inr (FoundItem (Node \<lparr>id' = 9, name = ''b'', size' = 120, isFolder = False, parentId = 5,
                            type' = 44, storageId' = 65537, path = ''b'',
                            extension = Some [], dateAdded = []\<rparr> []))
   \<and> fst (resolvePath tree_ab_env open_st (Some ''/a/b'') []) \<noteq>
     Inr (FoundItem (Node \<lparr>id' = 9, name = ''b'', size' = 120, isFolder = False, parentId = 5,
                            type' = 44, storageId' = 65537, path = ''/a/b'',
                            extension = Some [], dateAdded = []\<rparr> []))"
  by (simp add: resolvePath_def path_resolve_a_b listMtpFileTree_nonrecursive_def tree_ab_env_def
        quiet_env_def open_st_def entry_def mkFileInfo_def getExtension_def path_join_empty_b)

subsection \<open>Hidden entries below the first level\<close>

text \<open>
  C2. On a device whose root holds the folder \<open>d\<close> and the file \<open>.top\<close>, and whose folder
  \<open>d\<close> holds the file \<open>.h\<close>, the recursive enumeration with \<open>ignoreHiddenFiles = true\<close>
  leaves \<open>.top\<close> out and keeps \<open>.h\<close> among the children of \<open>d\<close>: the recursive call does
  not pass the flag on.
\<close>

theorem hidden_entry_kept_in_subfolder:
  "listMtpFileTree_internal 1 hidden_env open_st (Some 4294967295) True [] [] True [] =
     Some (None,
       [Node \<lparr>id' = 1, name = ''d'', size' = 0, isFolder = True, parentId = 4294967295,
              type' = 0, storageId' = 65537, path = ''d'', extension = None, dateAdded = []\<rparr>
          [Node \<lparr>id' = 2, name = ''.h'', size' = 3, isFolder = False, parentId = 1,
                 type' = 44, storageId' = 65537, path = ''d/.h'', extension = Some [],
                 dateAdded = []\<rparr> []]],
       [Get_Files_And_Folders_call (Dev 1) (Some 65537) (Some 4294967295),
        Get_Files_And_Folders_call (Dev 1) (Some 65537) (Some 1)])"
  by (simp add: hidden_env_def quiet_env_def open_st_def entry_def mkFileInfo_def getExtension_def
      hiddenPattern_test_def path_join_def path_normalize_def isAbsolute_def normalizeString_def)

subsection \<open>Uploading a folder that exists\<close>

lemma uploadFileTree_folder_head:
  assumes "device st = Some d"
    and "isFolder item"
    and "Create_Folder e t d (Some (name item)) pid (storageId st) = Inr 0"
    and "Get_Files_And_Folders e (t @ [Create_Folder_call d (Some (name item)) pid (storageId st)])
           d (storageId st) pid = Inr files"
    and "\<forall>f \<in> set files. file_name f \<noteq> None"
    and "find (\<lambda>f. file_name f = Some (name item)) files = Some f"
  shows "uploadFileTree e st (Node item cs # nodes) None pid t =
           (if file_type f = FILETYPE_FOLDER e then
              (case uploadFileTree e st cs None (Some (file_id f))
                      (t @ [Create_Folder_call d (Some (name item)) pid (storageId st),
                            Get_Files_And_Folders_call d (storageId st) pid]) of
                 (Inl er, t') \<Rightarrow> (Inl er, t')
               | (Inr _, t') \<Rightarrow> uploadFileTree e st nodes None pid t')
            else
              (Inl CREATE_FOLDER_FILE_FAILED,
               t @ [Create_Folder_call d (Some (name item)) pid (storageId st),
                    Get_Files_And_Folders_call d (storageId st) pid]))"
proof -
  let ?t1 = "t @ [Create_Folder_call d (Some (name item)) pid (storageId st)]"
  let ?t2 = "?t1 @ [Get_Files_And_Folders_call d (storageId st) pid]"
  let ?n = "Node (mkFileInfo e [] f (the (file_name f))) []"
  have ex: "fileExists e st None (Some (name item)) pid ?t1 = (Inr (Some (FoundItem ?n)), ?t2)"
    using fileExists_by_name[OF assms(1,4,5), of "name item"] assms(6) by simp
  have cf: "createFolder e st None pid (Some (name item)) t =
              (if file_type f = FILETYPE_FOLDER e then (Inr (file_id f), ?t2)
               else (Inl CREATE_FOLDER_FILE_FAILED, ?t2))"
    using assms(1,3) ex
    by (simp add: createFolder_def createFolder_target_def mkFileInfo_def Let_def)
  show ?thesis using assms(1,2) cf by (simp cong: sum.case_cong prod.case_cong)
qed

text \<open>
  C3. With a device open, let \<open>uploadFileTree\<close> be called with a destination path or a
  destination id, let \<open>pid\<close> be the parent it settles on, let the nodes before a folder
  node have been uploaded, and let \<open>Create_Folder\<close> return 0 for the node's name under
  \<open>pid\<close>. The parent is then listed, and with \<open>f\<close> the first entry of that name: if \<open>f\<close>
  is a folder, the children of the node are uploaded under the id of \<open>f\<close> and the walk
  goes on with the next nodes, no second \<open>Create_Folder\<close> call being made for the node; if
  \<open>f\<close> is not a folder, the upload ends with \<open>CREATE_FOLDER_FILE_FAILED\<close> after the
  listing.
\<close>

theorem uploadFileTree_folder_conflict:
  assumes dev: "device st = Some d"
    and start: "case folderPath of
                  None \<Rightarrow> pid = parentId0 \<and> ts = t0
                | Some fp \<Rightarrow>
                    \<exists>r. resolvePath e st (Some (path_resolve (cwd e) fp)) t0 = (Inr r, ts)
                         \<and> pid = Some (pathProps_id r)"
    and before: "uploadFileTree e st pre folderPath parentId0 t0 = (Inr b, t)"
    and folder: "isFolder item"
    and sentinel: "Create_Folder e t d (Some (name item)) pid (storageId st) = Inr 0"
    and listing: "Get_Files_And_Folders e
                    (t @ [Create_Folder_call d (Some (name item)) pid (storageId st)])
                    d (storageId st) pid = Inr files"
    and named: "\<forall>f \<in> set files. file_name f \<noteq> None"
    and found: "find (\<lambda>f. file_name f = Some (name item)) files = Some f"
  shows "uploadFileTree e st (pre @ Node item cs # nodes) folderPath parentId0 t0 =
           (if file_type f = FILETYPE_FOLDER e then
              (case uploadFileTree e st cs None (Some (file_id f))
                      (t @ [Create_Folder_call d (Some (name item)) pid (storageId st),
                            Get_Files_And_Folders_call d (storageId st) pid]) of
                 (Inl er, t') \<Rightarrow> (Inl er, t')
               | (Inr _, t') \<Rightarrow> uploadFileTree e st nodes None pid t')
            else
              (Inl CREATE_FOLDER_FILE_FAILED,
               t @ [Create_Folder_call d (Some (name item)) pid (storageId st),
                    Get_Files_And_Folders_call d (storageId st) pid]))"
  unfolding uploadFileTree_after[OF dev start before]
  using dev folder sentinel listing named found by (rule uploadFileTree_folder_head)

text \<open>
  The call with the destination path \<open>/\<close>: the folder \<open>x\<close> exists at the root with id 5,
  and the file of the node is sent to the parent 5.
\<close>

theorem uploadFileTree_folder_conflict_witness:
  "uploadFileTree conflict_root_env open_st
      [local_node ''x'' ''/src/x'' 0 True [local_node ''n'' ''/src/x/n'' 4 False []]]
      (Some ''/'') None [] =
     (Inr True,
      [Create_Folder_call (Dev 1) (Some ''x'') (Some 4294967295) (Some 65537),
       Get_Files_And_Folders_call (Dev 1) (Some 65537) (Some 4294967295),
       Get_Files_And_Folders_call (Dev 1) (Some 65537) (Some 5),
       Send_File_From_File_call (Dev 1) ''/src/x/n'' 4 ''n'' 44 (Some 5) (Some 65537)])"
proof -
  have dev: "device open_st = Some (Dev 1)"
    by (simp add: open_st_def)
  have start: "case Some ''/'' of
                 None \<Rightarrow> Some 4294967295 = None \<and> [] = []
               | Some fp \<Rightarrow>
                   \<exists>r. resolvePath conflict_root_env open_st
                          (Some (path_resolve (cwd conflict_root_env) fp)) [] = (Inr r, [])
                        \<and> Some 4294967295 = Some (pathProps_id r)"
    by (simp add: resolvePath_def path_resolve_root open_st_def conflict_root_env_def quiet_env_def)
  have before: "uploadFileTree conflict_root_env open_st [] (Some ''/'') None [] = (Inr True, [])"
    by (simp add: resolvePath_def path_resolve_root open_st_def conflict_root_env_def quiet_env_def
          entry_def local_node_def fileExists_def listMtpFileTree_nonrecursive_def uploadFile_def
          path_basename_def mkFileInfo_def Let_def deleteFile_def fileId_of_def)
  have folder: "isFolder (info (local_node ''x'' ''/src/x'' 0 True []))"
    by (simp add: local_node_def)
  have nm: "name (info (local_node ''x'' ''/src/x'' 0 True [])) = ''x''"
    by (simp add: local_node_def)
  have sentinel: "Create_Folder conflict_root_env [] (Dev 1)
                    (Some (name (info (local_node ''x'' ''/src/x'' 0 True []))))
                    (Some 4294967295) (storageId open_st) = Inr 0"
    by (simp add: conflict_root_env_def)
  have listing: "Get_Files_And_Folders conflict_root_env
                   ([] @ [Create_Folder_call (Dev 1)
                            (Some (name (info (local_node ''x'' ''/src/x'' 0 True []))))
                            (Some 4294967295) (storageId open_st)])
                   (Dev 1) (storageId open_st) (Some 4294967295) =
                 Inr [entry 5 ''x'' 0 0 4294967295, entry 6 ''y'' 10 44 4294967295]"
    by (simp add: conflict_root_env_def)
  have named: "\<forall>f \<in> set [entry 5 ''x'' 0 0 4294967295, entry 6 ''y'' 10 44 4294967295].
                 file_name f \<noteq> None"
    by (simp add: entry_def)
  have found: "find (\<lambda>f. file_name f = Some (name (info (local_node ''x'' ''/src/x'' 0 True []))))
                 [entry 5 ''x'' 0 0 4294967295, entry 6 ''y'' 10 44 4294967295] =
               Some (entry 5 ''x'' 0 0 4294967295)"
    by (simp add: nm entry_def)
  show ?thesis
    using uploadFileTree_folder_conflict [OF dev start before folder sentinel listing named found,
            of "[local_node ''n'' ''/src/x/n'' 4 False []]" "[]"]
    by (simp add: resolvePath_def path_resolve_root open_st_def conflict_root_env_def quiet_env_def
          entry_def local_node_def fileExists_def listMtpFileTree_nonrecursive_def uploadFile_def
          path_basename_def mkFileInfo_def Let_def deleteFile_def fileId_of_def)
qed

subsection \<open>Uploading a file that exists\<close>

lemma uploadFileTree_file_head:
  assumes "device st = Some d"
    and "\<not> isFolder item"
    and "Get_Files_And_Folders e t d (storageId st) pid = Inr files"
    and "\<forall>f \<in> set files. file_name f \<noteq> None"
    and "find (\<lambda>f. file_name f = Some (name item)) files = Some f"
  shows "(\<exists>x. Destroy_file e (t @ [Get_Files_And_Folders_call d (storageId st) pid]) d
                 (Some (file_id f)) = Inl x
              \<and> uploadFileTree e st (Node item cs # nodes) None pid t =
                  (Inl (Thrown x),
                   t @ [Get_Files_And_Folders_call d (storageId st) pid,
                        Destroy_file_call d (Some (file_id f))]))
         \<or> (\<exists>v r u. Destroy_file e (t @ [Get_Files_And_Folders_call d (storageId st) pid]) d
                       (Some (file_id f)) = Inr v
              \<and> uploadFileTree e st (Node item cs # nodes) None pid t =
                  (r, t @ [Get_Files_And_Folders_call d (storageId st) pid,
                           Destroy_file_call d (Some (file_id f)),
                           Send_File_From_File_call d (path item) (size' item)
                             (path_basename (path item)) (FILETYPE_UNKNOWN e) pid (storageId st)]
                        @ u))"
proof -
  let ?t1 = "t @ [Get_Files_And_Folders_call d (storageId st) pid]"
  let ?t2 = "?t1 @ [Destroy_file_call d (Some (file_id f))]"
  let ?up = "Send_File_From_File_call d (path item) (size' item)
               (path_basename (path item)) (FILETYPE_UNKNOWN e) pid (storageId st)"
  let ?n = "Node (mkFileInfo e [] f (the (file_name f))) []"
  have ex: "fileExists e st None (Some (name item)) pid t = (Inr (Some (FoundItem ?n)), ?t1)"
    using fileExists_by_name[OF assms(1,3,4), of "name item"] assms(5) by simp
  have idn: "pathProps_id (FoundItem ?n) = file_id f"
    by (simp add: mkFileInfo_def Let_def)
  show ?thesis
  proof (cases "Destroy_file e ?t1 d (Some (file_id f))")
    case (Inl x)
    then have "deleteFile e st None (Some (file_id f)) ?t1 = (Inl (Thrown x), ?t2)"
      using assms(1) by (simp add: deleteFile_def fileId_of_def)
    then have "uploadFileTree e st (Node item cs # nodes) None pid t = (Inl (Thrown x), ?t2)"
      using assms(1,2) ex idn by simp
    then show ?thesis using Inl by simp
  next
    case ret: (Inr v)
    then have dl: "deleteFile e st None (Some (file_id f)) ?t1 = (Inr True, ?t2)"
      using assms(1) by (simp add: deleteFile_def fileId_of_def)
    obtain r3 where up: "uploadFile e st (path item) pid (size' item) ?t2 = (r3, ?t2 @ [?up])"
      using uploadFile_calls[OF assms(1), of e "path item" pid "size' item" ?t2]
      by (cases "uploadFile e st (path item) pid (size' item) ?t2") auto
    show ?thesis
    proof (cases r3)
      case (Inl er)
      then have "uploadFileTree e st (Node item cs # nodes) None pid t = (Inl er, ?t2 @ [?up] @ [])"
        using assms(1,2) ex idn dl up by simp
      then show ?thesis using ret by (intro disjI2) simp
    next
      case ok: (Inr c)
      obtain rr w where w:
        "uploadFileTree_loop e st nodes pid (?t2 @ [?up]) = (rr, (?t2 @ [?up]) @ w)"
        using uploadFileTree_extends(2)[of e st nodes pid "?t2 @ [?up]"]
        by (cases "uploadFileTree_loop e st nodes pid (?t2 @ [?up])") auto
      have "uploadFileTree e st (Node item cs # nodes) None pid t = (rr, ?t2 @ [?up] @ w)"
        using assms(1,2) ex idn dl up ok w by simp
      then show ?thesis using ret by (intro disjI2) simp
    qed
  qed
qed

text \<open>
  C4. With a device open, let \<open>uploadFileTree\<close> be called with a destination path or a
  destination id, let \<open>pid\<close> be the parent it settles on, let the nodes before a file node
  have been uploaded, and let the listing of \<open>pid\<close> have \<open>f\<close> as its first entry with the
  node's name. Then either \<open>Destroy_file\<close> throws for the id of \<open>f\<close> and the upload ends
  there with no \<open>Send_File_From_File\<close> call, or \<open>Destroy_file\<close> returns and the calls
  continue with the listing, the \<open>Destroy_file\<close> call for the id of \<open>f\<close> and, right after
  it, the \<open>Send_File_From_File\<close> call for the node.
\<close>

theorem uploadFileTree_delete_before_upload:
  assumes dev: "device st = Some d"
    and start: "case folderPath of
                  None \<Rightarrow> pid = parentId0 \<and> ts = t0
                | Some fp \<Rightarrow>
                    \<exists>r. resolvePath e st (Some (path_resolve (cwd e) fp)) t0 = (Inr r, ts)
                         \<and> pid = Some (pathProps_id r)"
    and before: "uploadFileTree e st pre folderPath parentId0 t0 = (Inr b, t)"
    and plain: "\<not> isFolder item"
    and listing: "Get_Files_And_Folders e t d (storageId st) pid = Inr files"
    and named: "\<forall>f \<in> set files. file_name f \<noteq> None"
    and found: "find (\<lambda>f. file_name f = Some (name item)) files = Some f"
  shows "(\<exists>x. Destroy_file e (t @ [Get_Files_And_Folders_call d (storageId st) pid]) d
                 (Some (file_id f)) = Inl x
              \<and> uploadFileTree e st (pre @ Node item cs # nodes) folderPath parentId0 t0 =
                  (Inl (Thrown x),
                   t @ [Get_Files_And_Folders_call d (storageId st) pid,
                        Destroy_file_call d (Some (file_id f))]))
         \<or> (\<exists>v r u. Destroy_file e (t @ [Get_Files_And_Folders_call d (storageId st) pid]) d
                       (Some (file_id f)) = Inr v
              \<and> uploadFileTree e st (pre @ Node item cs # nodes) folderPath parentId0 t0 =
                  (r, t @ [Get_Files_And_Folders_call d (storageId st) pid,
                           Destroy_file_call d (Some (file_id f)),
                           Send_File_From_File_call d (path item) (size' item)
                             (path_basename (path item)) (FILETYPE_UNKNOWN e) pid (storageId st)]
                        @ u))"
  unfolding uploadFileTree_after[OF dev start before]
  using dev plain listing named found by (rule uploadFileTree_file_head)

text \<open>
  The call with the destination path \<open>/x\<close>: the path resolves to the folder 5 by one
  listing of the root; the file \<open>q\<close> is sent, then the file \<open>y\<close>, which exists in the
  folder with id 8, is deleted and sent.
\<close>

theorem uploadFileTree_delete_before_upload_witness:
  "\<exists>r u. uploadFileTree conflict_root_env open_st
            [local_node ''q'' ''/src/q'' 2 False [], local_node ''y'' ''/src/y'' 4 False []]
            (Some ''/x'') None [] =
          (r, [Get_Files_And_Folders_call (Dev 1) (Some 65537) (Some 4294967295),
               Get_Files_And_Folders_call (Dev 1) (Some 65537) (Some 5),
               Send_File_From_File_call (Dev 1) ''/src/q'' 2 ''q'' 44 (Some 5) (Some 65537)]
              @ [Get_Files_And_Folders_call (Dev 1) (Some 65537) (Some 5),
                 Destroy_file_call (Dev 1) (Some 8),
                 Send_File_From_File_call (Dev 1) ''/src/y'' 4 ''y'' 44 (Some 5) (Some 65537)]
              @ u)"
proof -
  let ?t = "[Get_Files_And_Folders_call (Dev 1) (Some 65537) (Some 4294967295),
             Get_Files_And_Folders_call (Dev 1) (Some 65537) (Some 5),
             Send_File_From_File_call (Dev 1) ''/src/q'' 2 ''q'' 44 (Some 5) (Some 65537)]"
  let ?ts = "[Get_Files_And_Folders_call (Dev 1) (Some 65537) (Some 4294967295)]"
  have dev: "device open_st = Some (Dev 1)"
    by (simp add: open_st_def)
  have px: "path_resolve c ''/x'' = ''/x''" for c
    by (simp add: path_resolve_def isAbsolute_def normalizeString_def)
  have rp: "resolvePath conflict_root_env open_st (Some ''/x'') [] =
              (Inr (FoundItem (Node (mkFileInfo conflict_root_env []
                                       (entry 5 ''x'' 0 0 4294967295) ''x'') [])), ?ts)"
    by (simp add: resolvePath_def px listMtpFileTree_nonrecursive_def open_st_def
          conflict_root_env_def quiet_env_def entry_def mkFileInfo_def Let_def)
  have start: "case Some ''/x'' of
                 None \<Rightarrow> Some 5 = None \<and> ?ts = []
               | Some fp \<Rightarrow>
                   \<exists>r. resolvePath conflict_root_env open_st
                          (Some (path_resolve (cwd conflict_root_env) fp)) [] = (Inr r, ?ts)
                        \<and> Some 5 = Some (pathProps_id r)"
    by (simp add: resolvePath_def px open_st_def conflict_root_env_def quiet_env_def
          entry_def local_node_def fileExists_def listMtpFileTree_nonrecursive_def uploadFile_def
          path_basename_def mkFileInfo_def Let_def deleteFile_def fileId_of_def)
  have before: "uploadFileTree conflict_root_env open_st [local_node ''q'' ''/src/q'' 2 False []]
                  (Some ''/x'') None [] = (Inr True, ?t)"
    by (simp add: resolvePath_def px open_st_def conflict_root_env_def quiet_env_def
          entry_def local_node_def fileExists_def listMtpFileTree_nonrecursive_def uploadFile_def
          path_basename_def mkFileInfo_def Let_def deleteFile_def fileId_of_def)
  have plain: "\<not> isFolder (info (local_node ''y'' ''/src/y'' 4 False []))"
    by (simp add: local_node_def)
  have listing: "Get_Files_And_Folders conflict_root_env ?t (Dev 1) (storageId open_st) (Some 5) =
                   Inr [entry 8 ''y'' 10 44 5]"
    by (simp add: conflict_root_env_def)
  have named: "\<forall>f \<in> set [entry 8 ''y'' 10 44 5]. file_name f \<noteq> None"
    by (simp add: entry_def)
  have found: "find (\<lambda>f. file_name f = Some (name (info (local_node ''y'' ''/src/y'' 4 False []))))
                 [entry 8 ''y'' 10 44 5] = Some (entry 8 ''y'' 10 44 5)"
    by (simp add: local_node_def entry_def)
  show ?thesis
    using uploadFileTree_delete_before_upload [OF dev start before plain listing named found,
            of "[]" "[]"]
    by (simp add: resolvePath_def px open_st_def conflict_root_env_def quiet_env_def
          entry_def local_node_def fileExists_def listMtpFileTree_nonrecursive_def uploadFile_def
          path_basename_def mkFileInfo_def Let_def deleteFile_def fileId_of_def)
qed

subsection \<open>Download at the root with nothing to transfer\<close>

text \<open>
  C5. With a device open, \<open>downloadFileTree\<close> called with \<open>rootNode = true\<close> and an empty
  list of nodes returns the error \<open>NO_FILES_COPIED\<close>, and the sequence of calls is left as
  it was: no \<open>mkdirp\<close> and no \<open>Get_File_To_File\<close> is made.
\<close>

theorem downloadFileTree_root_empty:
  "device st = Some d \<Longrightarrow>
     downloadFileTree e st True [] destinationFilePath t = (Inl NO_FILES_COPIED, t)"
  by simp

theorem downloadFileTree_root_empty_witness:
  "device open_st = Some (Dev 1) \<and>
   downloadFileTree quiet_env open_st True [] ''/out'' [] = (Inl NO_FILES_COPIED, [])"
  using downloadFileTree_root_empty [of open_st "Dev 1" quiet_env "''/out''" "[]"]
  by (simp add: open_st_def)

subsection \<open>Renaming\<close>

text \<open>
  A name of one no-break space (U+00A0) is blank: it is refused before any call, like a
  name of ASCII spaces.
\<close>

lemma trim_no_break_space: "trim_is_empty [CHR 0xC2, CHR 0xA0]"
  by (simp add: trim_is_empty_def isWhiteSpace_def startsWhiteSpace_def whiteSpace_def)

lemma renameFile_no_break_space:
  "device st = Some d \<Longrightarrow>
     renameFile e st filePath (Some [CHR 0xC2, CHR 0xA0]) fileId t = (Inl ILLEGAL_FILE_NAME, t)"
  by (simp add: renameFile_def trim_no_break_space)

text \<open>
  C6 (as amended). With a device open, a legal new name and the file identified, the
  name is read back only when \<open>Set_File_Name\<close> returns a status other than 0: then
  \<open>renameFile\<close> fails with \<open>RENAME_FAILED\<close> exactly when the metadata is read with a name
  that differs from the new name. When \<open>Set_File_Name\<close> returns 0 no metadata is read and
  the result is success.
\<close>

theorem renameFile_verification:
  assumes "device st = Some d"
    and "CHR ''/'' \<notin> set nn" and "\<not> trim_is_empty nn"
    and "fileId_of e st filePath fileId t = (Inr fid, t0)"
    and "Set_File_Name e t0 d fid (storageId st) nn = Inr renamed"
  shows "renameFile e st filePath (Some nn) fileId t =
           (if renamed = 0 then (Inr True, t0 @ [Set_File_Name_call d fid (storageId st) nn])
            else if (\<exists>fi n. Get_Filemetadata e (t0 @ [Set_File_Name_call d fid (storageId st) nn])
                              d fid = Inr (Some fi) \<and> file_name fi = Some n \<and> n \<noteq> nn)
            then (Inl RENAME_FAILED,
                  t0 @ [Set_File_Name_call d fid (storageId st) nn, Get_Filemetadata_call d fid])
            else (Inr True,
                  t0 @ [Set_File_Name_call d fid (storageId st) nn, Get_Filemetadata_call d fid]))"
  using assms
  by (auto simp: renameFile_def getFileInfo_def undefinedOrNull_def
        split: sum.splits option.splits)

theorem renameFile_verification_witness:
  "renameFile (rename_env 1) open_st None (Some ''new'') (Some 7) [] =
     (Inl RENAME_FAILED,
      [Set_File_Name_call (Dev 1) (Some 7) (Some 65537) ''new'',
       Get_Filemetadata_call (Dev 1) (Some 7)])"
  using renameFile_verification [of open_st "Dev 1" "''new''" "rename_env 1" None "Some 7" "[]"
          "Some 7" "[]" 1]
  by (simp add: fileId_of_def rename_env_def quiet_env_def open_st_def entry_def
        trim_is_empty_def isWhiteSpace_def startsWhiteSpace_def whiteSpace_def Let_def)

text \<open>
  On a device that answers \<open>Set_File_Name\<close> with 0 and keeps the name \<open>old\<close>, renaming to
  \<open>new\<close> succeeds after the one \<open>Set_File_Name\<close> call, though the metadata still holds
  \<open>old\<close>.
\<close>

theorem renameFile_status_zero_counterexample:
  "renameFile (rename_env 0) open_st None (Some ''new'') (Some 7) [] =
     (Inr True, [Set_File_Name_call (Dev 1) (Some 7) (Some 65537) ''new''])
   \<and> Get_Filemetadata (rename_env 0)
        [Set_File_Name_call (Dev 1) (Some 7) (Some 65537) ''new''] (Dev 1) (Some 7) =
      Inr (Some (entry 7 ''old'' 10 44 4294967295))"
  by (simp add: renameFile_def fileId_of_def rename_env_def quiet_env_def open_st_def
        trim_is_empty_def isWhiteSpace_def startsWhiteSpace_def whiteSpace_def Let_def)

subsection \<open>The guard on the device handle\<close>

text \<open>
  In the later variant every method modelled here starts with the guard, and
  \<open>releaseDevice\<close> clears the handle when the native call returns. The public
  \<open>listMtpFileTree\<close> reaches the guard only through \<open>resolvePath\<close>, after
  \<open>path.resolve(folderPath)\<close>.
\<close>

lemma later_variant_guard:
  assumes "device st = None"
  shows "resolvePath e st filePath t = (Inl NO_MTP, t)"
    and "getFileInfo e st filePath fileId t = (Inl NO_MTP, t)"
    and "fileExists e st filePath fileName pid t = (Inl NO_MTP, t)"
    and "deleteFile e st filePath fileId t = (Inl NO_MTP, t)"
    and "renameFile e st filePath newfileName fileId t = (Inl NO_MTP, t)"
    and "createFolder e st newFolderPath pid newFolderName t = (Inl NO_MTP, t)"
    and "listMtpFileTree_internal fuel e st pid recursive fts parentPath ign t =
           Some (Some NO_MTP, fts, t)"
    and "listMtpFileTree fuel e st (Some fp) recursive ign t = Some (Inr (Inl NO_MTP, t))"
    and "downloadFile e st dest file t = (Inl NO_MTP, t)"
    and "downloadFileTree e st rootNode nodes dest t = (Inl NO_MTP, t)"
    and "uploadFile e st fp pid sz t = (Inl NO_MTP, t)"
    and "uploadFileTree e st nodes filePath pid t = (Inl NO_MTP, t)"
    and "releaseDevice e st t = (Inl NO_MTP, st, t)"
  using assms
  by (simp_all add: resolvePath_def getFileInfo_def fileExists_def deleteFile_def renameFile_def
        createFolder_def listMtpFileTree_def downloadFile_def uploadFile_def releaseDevice_def
        throwMtpError_def)

lemma listMtpFileTree_null_path:
  "listMtpFileTree fuel e st None recursive ign t = Some (Inl TypeError)"
  by (simp add: listMtpFileTree_def)

lemma releaseDevice_clears:
  assumes "device st = Some d" and "Release_Device e t d = Inr u"
  shows "releaseDevice e st t = (Inr True, st\<lparr>device := None\<rparr>, t @ [Release_Device_call d])"
  using assms by (simp add: releaseDevice_def)

text \<open>
  C7. In the earlier variant \<open>releaseDevice\<close> returns without clearing the handle: on a
  device where every call succeeds, the state after the release is the state before it,
  and a \<open>deleteFile\<close> issued after the release calls \<open>Destroy_file\<close> on the released
  handle, while the same call before any device was acquired returns the error \<open>NO_MTP\<close>
  and calls nothing.
\<close>

theorem release_v1_keeps_device:
  "releaseDevice_v1 quiet_env open_st [] = (Inr (), open_st, [Release_Device_call (Dev 1)])
   \<and> deleteFile_v1 quiet_env open_st (Some 7) [Release_Device_call (Dev 1)] =
       (Inr (Inr 0), [Release_Device_call (Dev 1), Destroy_file_call (Dev 1) (Some 7)])
   \<and> deleteFile_v1 quiet_env constructor (Some 7) [] = (Inr (Inl NO_MTP), [])"
  by (simp add: releaseDevice_v1_def deleteFile_v1_def quiet_env_def open_st_def constructor_def
        throwMtpError_def)

subsection \<open>Resolving no path, the empty path and the root\<close>

text \<open>
  C8 (as amended). With a device open, resolving \<open>null\<close> fails with
  \<open>INVALID_PATH_RESOLVE\<close> and makes no call. The empty string is not rejected: it is
  resolved like the working directory.
\<close>

theorem resolvePath_null:
  assumes "device st = Some d"
  shows "resolvePath e st None t = (Inl INVALID_PATH_RESOLVE, t)
       \<and> (isAbsolute (cwd e) \<longrightarrow>
            resolvePath e st (Some []) t = resolvePath e st (Some (cwd e)) t)"
  using assms by (simp add: resolvePath_def path_resolve_empty)

theorem resolvePath_null_witness:
  "resolvePath quiet_env open_st None [] = (Inl INVALID_PATH_RESOLVE, [])
   \<and> isAbsolute (cwd quiet_env)
   \<and> resolvePath quiet_env open_st (Some []) [] =
       resolvePath quiet_env open_st (Some ''/home/user'') []"
  using resolvePath_null [of open_st "Dev 1" quiet_env "[]"]
  by (simp add: open_st_def quiet_env_def isAbsolute_def)

text \<open>
  With the working directory \<open>/\<close> the empty path resolves to the root; with the working
  directory \<open>/home/user\<close> and an empty device it fails with \<open>INVALID_NOT_FOUND\<close> after
  listing the root.
\<close>

theorem resolvePath_empty_counterexample:
  "resolvePath (quiet_env\<lparr>cwd := ''/''\<rparr>) open_st (Some []) [] =
      (Inr (RootPathProps 4294967295), [])
   \<and> resolvePath quiet_env open_st (Some []) [] =
      (Inl INVALID_NOT_FOUND, [Get_Files_And_Folders_call (Dev 1) (Some 65537) (Some 4294967295)])"
  by (simp add: resolvePath_def path_resolve_def isAbsolute_def normalizeString_def
        listMtpFileTree_nonrecursive_def quiet_env_def open_st_def)

text \<open>
  C9. With a device open, resolving \<open>/\<close> returns the object holding
  \<open>FILES_AND_FOLDERS_ROOT\<close> and makes no call at all, so no enumeration call: the sequence of
  calls is left as it was.
\<close>

theorem resolvePath_root:
  "device st = Some d \<Longrightarrow>
     resolvePath e st (Some ''/'') t = (Inr (RootPathProps (FILES_AND_FOLDERS_ROOT e)), t)"
  by (simp add: resolvePath_def path_resolve_root)

theorem resolvePath_root_witness:
  "device open_st = Some (Dev 1) \<and>
   resolvePath quiet_env open_st (Some ''/'') [] = (Inr (RootPathProps 4294967295), [])"
  using resolvePath_root [of open_st "Dev 1" quiet_env "[]"]
  by (simp add: open_st_def quiet_env_def)

subsection \<open>The sentinel without an entry of the name\<close>

text \<open>
  C10. With a device open, let \<open>createFolder\<close> have settled the name and the parent (from
  the path, or from the name and parent given), let \<open>Create_Folder\<close> return 0, and let
  the listing of the parent hold no entry of that name. Then \<open>createFolder\<close> fails with
  \<open>CREATE_FOLDER_FAILED\<close> after the listing.
\<close>

theorem createFolder_sentinel_without_entry:
  assumes "device st = Some d"
    and "createFolder_target e st newFolderPath parentId0 newFolderName t = (Inr (nm, pid), t0)"
    and "Create_Folder e t0 d nm pid (storageId st) = Inr 0"
    and "Get_Files_And_Folders e (t0 @ [Create_Folder_call d nm pid (storageId st)]) d
           (storageId st) pid = Inr files"
    and "\<forall>f \<in> set files. file_name f \<noteq> None \<and> file_name f \<noteq> nm"
  shows "createFolder e st newFolderPath parentId0 newFolderName t =
           (Inl CREATE_FOLDER_FAILED,
            t0 @ [Create_Folder_call d nm pid (storageId st),
                  Get_Files_And_Folders_call d (storageId st) pid])"
proof -
  let ?t1 = "t0 @ [Create_Folder_call d nm pid (storageId st)]"
  have named: "\<forall>f \<in> set files. file_name f \<noteq> None" using assms(5) by blast
  have ex: "fileExists e st None nm pid ?t1 =
              (Inr None, ?t1 @ [Get_Files_And_Folders_call d (storageId st) pid])"
  proof (cases nm)
    case None
    then show ?thesis using fileExists_null_name[OF assms(1,4) named] by simp
  next
    case (Some n)
    have "find (\<lambda>f. file_name f = Some n) files = None"
      using assms(5) Some by (auto simp: find_None_iff)
    then show ?thesis using fileExists_by_name[OF assms(1,4) named, of n] Some by simp
  qed
  show ?thesis using assms(1,2,3) ex by (simp add: createFolder_def)
qed

theorem createFolder_sentinel_without_entry_witness:
  "createFolder conflict_env open_st None (Some 1) (Some ''z'') [] =
     (Inl CREATE_FOLDER_FAILED,
      [Create_Folder_call (Dev 1) (Some ''z'') (Some 1) (Some 65537),
       Get_Files_And_Folders_call (Dev 1) (Some 65537) (Some 1)])"
  using createFolder_sentinel_without_entry [of open_st "Dev 1" conflict_env None "Some 1"
          "Some ''z''" "[]" "Some ''z''" "Some 1" "[]" "[entry 5 ''x'' 0 0 1, entry 6 ''y'' 10 44 1]"]
  by (simp add: open_st_def conflict_env_def quiet_env_def entry_def createFolder_target_def)

end
